theory Spec2Isabelle
  imports Main "HOL-Library.Sublist" "HOL-Library.AList" "HOL-Library.Multiset"
begin

section \<open>Values thrown by the program\<close>

text \<open>
  Every \<^verbatim>\<open>throw\<close> of the services throws \<^verbatim>\<open>new Error(message)\<close>; the remote client may
  reject with anything. A thrown value is therefore an \<open>Error\<close> carrying its message, or
  \<open>NonError\<close>, a value for which \<^verbatim>\<open>instanceof Error\<close> is false. A function that can throw
  returns \<open>thrown + 'a\<close>, with \<open>Inl\<close> the thrown value.
\<close>

datatype thrown = Error string | NonError

text \<open>The errors that the services construct, by their messages.\<close>

definition ConfigurationError :: thrown where
  "ConfigurationError = Error ''MAIN_RPC_URL environment variable is not set''"

definition NoHealthyEndpoints :: thrown where
  "NoHealthyEndpoints = Error ''No healthy RPC endpoints available''"

definition AccountNotFound :: thrown where
  "AccountNotFound = Error ''Account not found''"

definition NotAProgramAccount :: thrown where
  "NotAProgramAccount =
     Error ''Not a program account. This appears to be a regular account or token.''"

definition DeploymentNotFound :: thrown where
  "DeploymentNotFound = Error ''Could not find deployment transaction''"

definition UnknownError :: thrown where
  "UnknownError = Error ''Unknown error''"

definition NoDeploymentInformation :: thrown where
  "NoDeploymentInformation = Error ''Failed to get deployment information''"

text \<open>
  Thrown by the library: one of the messages of \<^verbatim>\<open>new PublicKey(s)\<close> on a string that is
  not a key, and a field read on \<^verbatim>\<open>undefined\<close>.
\<close>

definition InvalidPublicKey :: thrown where
  "InvalidPublicKey = Error ''Invalid public key input''"

definition UndefinedEndpoint :: thrown where
  "UndefinedEndpoint = Error ''Cannot read properties of undefined (reading 'lastHealthCheck')''"

section \<open>The environment\<close>

text \<open>
  The services read the clock, call remote endpoints and use the file system. The
  environment is a record of oracles; each is indexed by the number of interactions made
  so far (\<open>tick\<close> of the state), so that answers may change from one call to the next.
  \<open>getSlot\<close>, \<open>getParsedAccountInfo\<close>, \<open>getSignaturesForAddress\<close> and
  \<open>getParsedTransaction\<close> take the endpoint's url first; \<open>getSlot w t u\<close> is the outcome
  of the whole probe \<^verbatim>\<open>new Connection(u, 'confirmed').getSlot()\<close>, so that a throw of the
  constructor is one of the ways in which the probe throws. \<open>isPublicKey\<close> says for which
  strings \<^verbatim>\<open>new PublicKey(s)\<close> returns, and \<open>publicKeyError\<close> is what it throws for the
  others (the library has several messages); \<open>fsFails\<close> says which file-system calls throw;
  \<open>parseEntries\<close> is \<^verbatim>\<open>Object.entries(JSON.parse(data))\<close> and \<open>stringifyEntries\<close> is
  \<^verbatim>\<open>JSON.stringify(Object.fromEntries(cache), null, 2)\<close>.
\<close>

datatype slot_response = Number int | NotANumber

record AccountInfo =
  owner :: string
  programData :: "string option"

record ConfirmedSignatureInfo =
  signature :: string
  slot :: int
  blockTime :: "int option"

record ParsedMeta =
  logMessages :: "string list option"

record ParsedTransaction =
  meta :: "ParsedMeta option"

record CacheEntry =
  programId :: string
  deploymentSignature :: string
  deploymentSlot :: int
  deploymentTimestamp :: int
  lastChecked :: int
  isProgramData :: bool
  programDataAccount :: "string option"

record world =
  now :: "nat \<Rightarrow> int"
  getSlot :: "nat \<Rightarrow> string \<Rightarrow> thrown + slot_response"
  getParsedAccountInfo :: "nat \<Rightarrow> string \<Rightarrow> string \<Rightarrow> thrown + AccountInfo option"
  getSignaturesForAddress :: "nat \<Rightarrow> string \<Rightarrow> string \<Rightarrow> thrown + ConfirmedSignatureInfo list"
  getParsedTransaction :: "nat \<Rightarrow> string \<Rightarrow> string \<Rightarrow> thrown + ParsedTransaction option"
  isPublicKey :: "string \<Rightarrow> bool"
  publicKeyError :: "string \<Rightarrow> thrown"
  fsFails :: "nat \<Rightarrow> bool"
  parseEntries :: "string \<Rightarrow> thrown + (string \<times> CacheEntry) list"
  stringifyEntries :: "(string \<times> CacheEntry) list \<Rightarrow> string"

section \<open>The state\<close>

text \<open>
  \<open>endpoints\<close> and \<open>currentEndpointIndex\<close> are the fields of \<^verbatim>\<open>RpcService\<close>; \<open>cache\<close> is the
  \<^verbatim>\<open>Map\<close> of \<^verbatim>\<open>CacheService\<close>, kept as an association list in insertion order;
  \<open>cacheDirExists\<close> and \<open>cacheFile\<close> are the cache directory and the content of the cache
  file on disk. \<open>rpc_calls\<close> and \<open>cache_calls\<close> record, in order, the remote operations
  performed and the calls made to the public methods of the cache.
\<close>

record RpcEndpoint =
  url :: string
  name :: string
  priority :: nat
  isHealthy :: bool
  lastHealthCheck :: int

datatype rpc_call =
    GetSlot string
  | GetParsedAccountInfo string string
  | GetSignaturesForAddress string string
  | GetParsedTransaction string string

datatype cache_call = GetCachedDeployment string | CacheDeployment string | GetCacheStats

record sys =
  tick :: nat
  rpc_calls :: "rpc_call list"
  cache_calls :: "cache_call list"
  endpoints :: "RpcEndpoint list"
  currentEndpointIndex :: nat
  cache :: "(string \<times> CacheEntry) list"
  cacheDirExists :: bool
  cacheFile :: "string option"

definition step :: "sys \<Rightarrow> sys" where
  "step st = st\<lparr>tick := Suc (tick st)\<rparr>"

section \<open>rpc-service.ts\<close>

definition healthCheckInterval :: int where
  "healthCheckInterval = 5 * 60 * 1000"

subsection \<open>The constructor\<close>

text \<open>\<^verbatim>\<open>s.split(',')\<close>: never empty, \<^verbatim>\<open>''.split(',')\<close> is \<^verbatim>\<open>['']\<close>.\<close>

fun split_comma :: "string \<Rightarrow> string list" where
  "split_comma [] = [[]]"
| "split_comma (c # cs) =
     (if c = CHR '','' then [] # split_comma cs
      else (case split_comma cs of
              [] \<Rightarrow> [[c]]
            | w # ws \<Rightarrow> (c # w) # ws))"

text \<open>
  \<^verbatim>\<open>s.trim()\<close> strips the white space and the line terminators of ECMAScript from both
  ends. A string is the list of its UTF-8 bytes, so that such a character is one byte
  (U+0009 to U+000D, U+0020), two bytes (U+00A0) or three bytes (U+1680, U+2000 to
  U+200A, U+2028, U+2029, U+202F, U+205F, U+3000, U+FEFF).
\<close>

definition is_space1 :: "char \<Rightarrow> bool" where
  "is_space1 c = (c \<in> set [CHR 0x09, CHR 0x0A, CHR 0x0B, CHR 0x0C, CHR 0x0D, CHR 0x20])"

definition is_space2 :: "char \<Rightarrow> char \<Rightarrow> bool" where
  "is_space2 c d = (c = CHR 0xC2 \<and> d = CHR 0xA0)"

definition is_space3 :: "char \<Rightarrow> char \<Rightarrow> char \<Rightarrow> bool" where
  "is_space3 c d e =
     ((c = CHR 0xE1 \<and> d = CHR 0x9A \<and> e = CHR 0x80) \<or>
      (c = CHR 0xE2 \<and> d = CHR 0x80 \<and>
         e \<in> set [CHR 0x80, CHR 0x81, CHR 0x82, CHR 0x83, CHR 0x84, CHR 0x85, CHR 0x86,
                  CHR 0x87, CHR 0x88, CHR 0x89, CHR 0x8A, CHR 0xA8, CHR 0xA9, CHR 0xAF]) \<or>
      (c = CHR 0xE2 \<and> d = CHR 0x81 \<and> e = CHR 0x9F) \<or>
      (c = CHR 0xE3 \<and> d = CHR 0x80 \<and> e = CHR 0x80) \<or>
      (c = CHR 0xEF \<and> d = CHR 0xBB \<and> e = CHR 0xBF))"

text \<open>
  Stripping from the front, with the three tests as parameters: from the end, the same
  function runs on the reversed string with the bytes of each test in reverse.
\<close>

fun strip_front ::
  "(char \<Rightarrow> bool) \<Rightarrow> (char \<Rightarrow> char \<Rightarrow> bool) \<Rightarrow> (char \<Rightarrow> char \<Rightarrow> char \<Rightarrow> bool) \<Rightarrow> string \<Rightarrow> string" where
  "strip_front p1 p2 p3 (c # d # e # s) =
     (if p1 c then strip_front p1 p2 p3 (d # e # s)
      else if p2 c d then strip_front p1 p2 p3 (e # s)
      else if p3 c d e then strip_front p1 p2 p3 s
      else c # d # e # s)"
| "strip_front p1 p2 p3 [c, d] =
     (if p1 c then strip_front p1 p2 p3 [d] else if p2 c d then [] else [c, d])"
| "strip_front p1 p2 p3 [c] = (if p1 c then [] else [c])"
| "strip_front p1 p2 p3 [] = []"

definition trimStart :: "string \<Rightarrow> string" where
  "trimStart s = strip_front is_space1 is_space2 is_space3 s"

definition trimEnd :: "string \<Rightarrow> string" where
  "trimEnd s =
     rev (strip_front is_space1 (\<lambda>c d. is_space2 d c) (\<lambda>c d e. is_space3 e d c) (rev s))"

definition trim :: "string \<Rightarrow> string" where
  "trim s = trimEnd (trimStart s)"

text \<open>The decimal digits of a number, for the template \<^verbatim>\<open>`Backup ${index + 1}`\<close>.\<close>

fun show_nat :: "nat \<Rightarrow> string" where
  "show_nat n =
     (if n < 10 then [char_of (48 + n)]
      else show_nat (n div 10) @ [char_of (48 + n mod 10)])"

record process_env =
  MAIN_RPC_URL :: "string option"
  BACKUP_RPC_URLS :: "string option"
  BACKUP_RPC_NAMES :: "string option"

definition backupName :: "string list \<Rightarrow> nat \<Rightarrow> string" where
  "backupName backupNames index =
     (let fallback = ''Backup '' @ show_nat (index + 1)
      in if index < length backupNames
         then (if trim (backupNames ! index) = [] then fallback else trim (backupNames ! index))
         else fallback)"

text \<open>The body of the \<^verbatim>\<open>forEach\<close> over the backup urls, from index \<open>index\<close> on.\<close>

fun addBackups :: "string list \<Rightarrow> nat \<Rightarrow> string list \<Rightarrow> RpcEndpoint list \<Rightarrow> RpcEndpoint list" where
  "addBackups backupNames index [] eps = eps"
| "addBackups backupNames index (u # us) eps =
     addBackups backupNames (Suc index) us
       (if trim u \<noteq> []
        then eps @ [\<lparr>url = trim u, name = backupName backupNames index, priority = index + 2,
                     isHealthy = True, lastHealthCheck = 0\<rparr>]
        else eps)"

definition RpcService_endpoints :: "process_env \<Rightarrow> thrown + RpcEndpoint list" where
  "RpcService_endpoints penv =
     (case MAIN_RPC_URL penv of
        None \<Rightarrow> Inl ConfigurationError
      | Some primaryUrl \<Rightarrow>
          if primaryUrl = [] then Inl ConfigurationError
          else
            let primary = \<lparr>url = primaryUrl, name = ''Primary'', priority = 1,
                           isHealthy = True, lastHealthCheck = 0\<rparr>;
                backupUrls = (case BACKUP_RPC_URLS penv of None \<Rightarrow> [] | Some s \<Rightarrow> split_comma s);
                backupNames = (case BACKUP_RPC_NAMES penv of None \<Rightarrow> [] | Some s \<Rightarrow> split_comma s)
            in Inr (sort_key priority (addBackups backupNames 0 backupUrls [primary])))"

text \<open>
  The constructor: the fields start as \<^verbatim>\<open>endpoints = []\<close> and \<^verbatim>\<open>currentEndpointIndex = 0\<close>,
  and the body fills \<open>endpoints\<close> or throws.
\<close>

definition RpcService_new :: "process_env \<Rightarrow> sys \<Rightarrow> thrown + sys" where
  "RpcService_new penv st =
     (case RpcService_endpoints penv of
        Inl e \<Rightarrow> Inl e
      | Inr eps \<Rightarrow> Inr (st\<lparr>endpoints := eps, currentEndpointIndex := 0\<rparr>))"

subsection \<open>Health checks\<close>

text \<open>
  \<^verbatim>\<open>checkEndpointHealth\<close>: the probe constructs a connection and calls \<^verbatim>\<open>getSlot\<close> on it,
  inside one \<^verbatim>\<open>try\<close>; a throw of either, a reply that is not a number and a reply that is
  not positive all give \<^verbatim>\<open>false\<close>. The entry \<open>GetSlot u\<close> of \<open>rpc_calls\<close> records that the
  endpoint \<open>u\<close> was probed.
\<close>

definition checkEndpointHealth :: "world \<Rightarrow> RpcEndpoint \<Rightarrow> sys \<Rightarrow> bool \<times> sys" where
  "checkEndpointHealth w endpoint st =
     (let response = getSlot w (tick st) (url endpoint);
          st1 = step (st\<lparr>rpc_calls := rpc_calls st @ [GetSlot (url endpoint)]\<rparr>)
      in case response of
           Inl e \<Rightarrow> (False, st1)
         | Inr NotANumber \<Rightarrow> (False, st1)
         | Inr (Number n) \<Rightarrow> (if n \<le> 0 then (False, st1) else (True, st1)))"

text \<open>
  \<^verbatim>\<open>updateEndpointHealth\<close> mutates the endpoint object, which is the element \<open>i\<close> of
  \<open>endpoints\<close>; the callers pass an index in range.
\<close>

definition updateEndpointHealth :: "world \<Rightarrow> nat \<Rightarrow> sys \<Rightarrow> sys" where
  "updateEndpointHealth w i st =
     (let endpoint = endpoints st ! i;
          now_ms = now w (tick st);
          st1 = step st
      in if now_ms - lastHealthCheck endpoint > healthCheckInterval
         then (case checkEndpointHealth w endpoint st1 of
                 (h, st2) \<Rightarrow>
                   st2\<lparr>endpoints := (endpoints st2)[i := endpoint\<lparr>isHealthy := h, lastHealthCheck := now_ms\<rparr>]\<rparr>)
         else st1)"

subsection \<open>The two selection policies\<close>

text \<open>
  A connection is identified by the url it was made for, and \<^verbatim>\<open>new Connection(url)\<close> in
  the \<^verbatim>\<open>return\<close> of either policy is taken to return: the constructor throws only on a url
  that does not start with \<^verbatim>\<open>http:\<close> or \<^verbatim>\<open>https:\<close>, on which every probe fails as well. The
  \<^verbatim>\<open>for\<close> loop of \<^verbatim>\<open>getHealthyConnection\<close> is the recursion on \<open>i\<close>.
\<close>

function healthyLoop :: "world \<Rightarrow> nat \<Rightarrow> sys \<Rightarrow> (thrown + string) \<times> sys" where
  "healthyLoop w i st =
     (if i < length (endpoints st) then
        (let st1 = updateEndpointHealth w i st
         in if isHealthy (endpoints st1 ! i) then (Inr (url (endpoints st1 ! i)), st1)
            else healthyLoop w (i + 1) st1)
      else (Inl NoHealthyEndpoints, st))"
  by pat_completeness auto
termination
  by (relation "measure (\<lambda>(w, i, st). length (endpoints st) - i)")
     (auto simp: updateEndpointHealth_def checkEndpointHealth_def step_def Let_def
           split: sum.splits slot_response.splits)

definition getHealthyConnection :: "world \<Rightarrow> sys \<Rightarrow> (thrown + string) \<times> sys" where
  "getHealthyConnection w st = healthyLoop w 0 st"

text \<open>
  The \<^verbatim>\<open>while\<close> loop of \<^verbatim>\<open>getNextHealthyConnection\<close> is the recursion on \<open>tried\<close>. Reading
  \<^verbatim>\<open>this.endpoints[this.currentEndpointIndex]\<close> out of range gives \<^verbatim>\<open>undefined\<close>, and
  \<^verbatim>\<open>updateEndpointHealth\<close> then throws a \<^verbatim>\<open>TypeError\<close> on the first field it reads.
\<close>

function nextLoop :: "world \<Rightarrow> nat \<Rightarrow> sys \<Rightarrow> (thrown + string) \<times> sys" where
  "nextLoop w tried st =
     (if tried < length (endpoints st) then
        (let i = currentEndpointIndex st
         in if i < length (endpoints st) then
              (let st1 = updateEndpointHealth w i st
               in if isHealthy (endpoints st1 ! i) then (Inr (url (endpoints st1 ! i)), st1)
                  else nextLoop w (tried + 1)
                         (st1\<lparr>currentEndpointIndex := (i + 1) mod length (endpoints st1)\<rparr>))
            else (Inl UndefinedEndpoint, st))
      else (Inl NoHealthyEndpoints, st))"
  by pat_completeness auto
termination
  by (relation "measure (\<lambda>(w, tried, st). length (endpoints st) - tried)")
     (auto simp: updateEndpointHealth_def checkEndpointHealth_def step_def Let_def
           split: sum.splits slot_response.splits)

definition getNextHealthyConnection :: "world \<Rightarrow> sys \<Rightarrow> (thrown + string) \<times> sys" where
  "getNextHealthyConnection w st = nextLoop w 0 st"

section \<open>cache-service.ts\<close>

definition cacheValidityPeriod :: int where
  "cacheValidityPeriod = 24 * 60 * 60 * 1000"

subsection \<open>The file system\<close>

text \<open>
  \<^verbatim>\<open>fs.existsSync\<close> reads \<open>cacheDirExists\<close> and \<open>cacheFile\<close>. The other calls throw when
  the oracle \<open>fsFails\<close> says so; the first component of their result is \<open>False\<close>
  (\<open>None\<close> for a read) when they throw. Reading a file that does not exist and writing
  into a directory that does not exist throw as well.
\<close>

definition mkdirSync :: "world \<Rightarrow> sys \<Rightarrow> bool \<times> sys" where
  "mkdirSync w st =
     (if fsFails w (tick st) then (False, step st)
      else (True, step (st\<lparr>cacheDirExists := True\<rparr>)))"

definition readFileSync :: "world \<Rightarrow> sys \<Rightarrow> string option \<times> sys" where
  "readFileSync w st =
     (if fsFails w (tick st) then (None, step st) else (cacheFile st, step st))"

definition writeFileSync :: "world \<Rightarrow> string \<Rightarrow> sys \<Rightarrow> bool \<times> sys" where
  "writeFileSync w data st =
     (if fsFails w (tick st) \<or> \<not> cacheDirExists st then (False, step st)
      else (True, step (st\<lparr>cacheFile := Some data\<rparr>)))"

subsection \<open>Loading and saving\<close>

text \<open>\<^verbatim>\<open>new Map(entries)\<close> sets the entries one after the other.\<close>

definition new_Map :: "(string \<times> CacheEntry) list \<Rightarrow> (string \<times> CacheEntry) list" where
  "new_Map entries = foldl (\<lambda>m (k, v). AList.update k v m) [] entries"

text \<open>Every exception inside \<^verbatim>\<open>loadCache\<close> is caught, and the cache is then empty.\<close>

definition loadCache :: "world \<Rightarrow> sys \<Rightarrow> sys" where
  "loadCache w st =
     (case (if \<not> cacheDirExists st then mkdirSync w st else (True, st)) of
        (False, st1) \<Rightarrow> st1\<lparr>cache := []\<rparr>
      | (True, st1) \<Rightarrow>
          if cacheFile st1 \<noteq> None then
            (case readFileSync w st1 of
               (None, st2) \<Rightarrow> st2\<lparr>cache := []\<rparr>
             | (Some data, st2) \<Rightarrow>
                 (case parseEntries w data of
                    Inl e \<Rightarrow> st2\<lparr>cache := []\<rparr>
                  | Inr entries \<Rightarrow> st2\<lparr>cache := new_Map entries\<rparr>))
          else st1)"

definition CacheService_new :: "world \<Rightarrow> sys \<Rightarrow> sys" where
  "CacheService_new w st = loadCache w (st\<lparr>cache := []\<rparr>)"

text \<open>Every exception inside \<^verbatim>\<open>saveCache\<close> is caught and logged.\<close>

definition saveCache :: "world \<Rightarrow> sys \<Rightarrow> sys" where
  "saveCache w st =
     (case (if \<not> cacheDirExists st then mkdirSync w st else (True, st)) of
        (False, st1) \<Rightarrow> st1
      | (True, st1) \<Rightarrow> snd (writeFileSync w (stringifyEntries w (cache st1)) st1))"

subsection \<open>The public methods\<close>

definition getCachedDeployment :: "world \<Rightarrow> string \<Rightarrow> sys \<Rightarrow> CacheEntry option \<times> sys" where
  "getCachedDeployment w pid st =
     (let st0 = st\<lparr>cache_calls := cache_calls st @ [GetCachedDeployment pid]\<rparr>
      in case map_of (cache st0) pid of
           None \<Rightarrow> (None, st0)
         | Some entry \<Rightarrow>
             (let now_ms = now w (tick st0); st1 = step st0
              in if now_ms - lastChecked entry > cacheValidityPeriod
                 then (None, saveCache w (st1\<lparr>cache := AList.delete pid (cache st1)\<rparr>))
                 else (Some entry, st1)))"

definition cacheDeployment ::
  "world \<Rightarrow> string \<Rightarrow> string \<Rightarrow> int \<Rightarrow> int \<Rightarrow> bool \<Rightarrow> string option \<Rightarrow> sys \<Rightarrow> sys" where
  "cacheDeployment w pid dsignature dslot dtimestamp isPD pda st =
     (let st0 = st\<lparr>cache_calls := cache_calls st @ [CacheDeployment pid]\<rparr>;
          entry = \<lparr>programId = pid, deploymentSignature = dsignature, deploymentSlot = dslot,
                   deploymentTimestamp = dtimestamp, lastChecked = now w (tick st0),
                   isProgramData = isPD, programDataAccount = pda\<rparr>;
          st1 = step st0
      in saveCache w (st1\<lparr>cache := AList.update pid entry (cache st1)\<rparr>))"

record CacheStats =
  total :: nat
  valid :: nat
  expired :: nat

definition getCacheStats :: "world \<Rightarrow> sys \<Rightarrow> CacheStats \<times> sys" where
  "getCacheStats w st =
     (let st0 = st\<lparr>cache_calls := cache_calls st @ [GetCacheStats]\<rparr>;
          now_ms = now w (tick st0);
          st1 = step st0;
          counts = foldl (\<lambda>(v, e) entry.
                      if now_ms - lastChecked entry \<le> cacheValidityPeriod then (v + 1, e)
                      else (v, e + 1)) (0, 0) (map snd (cache st1))
      in (\<lparr>total = length (cache st1), valid = fst counts, expired = snd counts\<rparr>, st1))"

section \<open>program-service.ts\<close>

record DeploymentInfo =
  d_signature :: string
  d_slot :: int
  d_timestamp :: int
  d_programDataAccount :: "string option"

definition NATIVE_PROGRAMS :: "string list" where
  "NATIVE_PROGRAMS =
     [''TokenkegQfeZyiNwAJbNbGKPFXCWuBvf9Ss623VQ5DA'',
      ''ComputeBudget111111111111111111111111111111'',
      ''BPFLoader2111111111111111111111111111111111'',
      ''BPFLoader1111111111111111111111111111111111'',
      ''Feature111111111111111111111111111111111111'',
      ''NativeLoader1111111111111111111111111111111'',
      ''Sysvar1111111111111111111111111111111111111'',
      ''11111111111111111111111111111111'',
      ''Config1111111111111111111111111111111111111'',
      ''Stake11111111111111111111111111111111111111'',
      ''Vote111111111111111111111111111111111111111'',
      ''AddressLookupTab1e1111111111111111111111111'',
      ''BPFLoaderUpgradeab1e11111111111111111111111'',
      ''Ed25519SigVerify111111111111111111111111111'',
      ''KeccakSecp256k11111111111111111111111111111'',
      ''Secp256r1SigVerify1111111111111111111111111'']"

definition BPF_LOADER_PROGRAMS :: "string list" where
  "BPF_LOADER_PROGRAMS =
     [''BPFLoader2111111111111111111111111111111111'',
      ''BPFLoader1111111111111111111111111111111111'',
      ''BPFLoaderUpgradeab1e11111111111111111111111'']"

definition isNativeProgram :: "string \<Rightarrow> bool" where
  "isNativeProgram pid = (pid \<in> set NATIVE_PROGRAMS)"

definition isProgramAccount :: "string \<Rightarrow> bool" where
  "isProgramAccount own = (own \<in> set BPF_LOADER_PROGRAMS)"

text \<open>
  \<^verbatim>\<open>new PublicKey(s)\<close>; a key is identified by its base-58 string, and what the library
  throws for a string that is not a key is the environment's.
\<close>

definition PublicKey :: "world \<Rightarrow> string \<Rightarrow> thrown + string" where
  "PublicKey w s = (if isPublicKey w s then Inr s else Inl (publicKeyError w s))"

subsection \<open>The history scan\<close>

text \<open>\<^verbatim>\<open>log.includes(s)\<close>: \<open>s\<close> occurs in \<open>log\<close> as a contiguous substring.\<close>

definition str_includes :: "string \<Rightarrow> string \<Rightarrow> bool" where
  "str_includes log s = sublist s log"

definition isDeployment :: "string \<Rightarrow> string list \<Rightarrow> bool" where
  "isDeployment pid logs =
     list_ex (\<lambda>log. str_includes log ''Deployed program'' \<or> str_includes log ''Deploy with ID'' \<or>
                    (str_includes log pid \<and> str_includes log ''success'')) logs"

text \<open>\<^verbatim>\<open>tx?.meta?.logMessages\<close>; an empty array is not falsy.\<close>

definition tx_logMessages :: "ParsedTransaction option \<Rightarrow> string list option" where
  "tx_logMessages tx =
     (case tx of
        None \<Rightarrow> None
      | Some t \<Rightarrow> (case meta t of None \<Rightarrow> None | Some m \<Rightarrow> logMessages m))"

text \<open>\<^verbatim>\<open>x || 0\<close> on a number that may be absent.\<close>

definition or0 :: "int option \<Rightarrow> int" where
  "or0 x = (case x of None \<Rightarrow> 0 | Some n \<Rightarrow> n)"

text \<open>
  The \<^verbatim>\<open>for\<close> loop over the sorted signatures. An exception of \<^verbatim>\<open>getParsedTransaction\<close> is
  caught by the \<^verbatim>\<open>try\<close> around the whole function, which then returns \<^verbatim>\<open>null\<close>.
\<close>

fun scanSignatures ::
  "world \<Rightarrow> string \<Rightarrow> string \<Rightarrow> ConfirmedSignatureInfo list \<Rightarrow> sys \<Rightarrow> DeploymentInfo option \<times> sys" where
  "scanSignatures w conn pid [] st = (None, st)"
| "scanSignatures w conn pid (sig # sigs) st =
     (let r = getParsedTransaction w (tick st) conn (signature sig);
          st1 = step (st\<lparr>rpc_calls := rpc_calls st @ [GetParsedTransaction conn (signature sig)]\<rparr>)
      in case r of
           Inl e \<Rightarrow> (None, st1)
         | Inr tx \<Rightarrow>
             (case tx_logMessages tx of
                None \<Rightarrow> scanSignatures w conn pid sigs st1
              | Some logs \<Rightarrow>
                  if isDeployment pid logs
                  then (Some \<lparr>d_signature = signature sig, d_slot = or0 (Some (slot sig)),
                              d_timestamp = or0 (blockTime sig), d_programDataAccount = None\<rparr>, st1)
                  else scanSignatures w conn pid sigs st1))"

text \<open>
  \<^verbatim>\<open>signatures.sort((a, b) => (a.slot || 0) - (b.slot || 0))\<close> is a stable sort on the
  slot, as \<open>sort_key\<close> is.
\<close>

definition findDeploymentTransaction ::
  "world \<Rightarrow> string \<Rightarrow> string \<Rightarrow> string \<Rightarrow> sys \<Rightarrow> DeploymentInfo option \<times> sys" where
  "findDeploymentTransaction w conn targetAccount pid st =
     (let r = getSignaturesForAddress w (tick st) conn targetAccount;
          st1 = step (st\<lparr>rpc_calls := rpc_calls st @ [GetSignaturesForAddress conn targetAccount]\<rparr>)
      in case r of
           Inl e \<Rightarrow> (None, st1)
         | Inr signatures \<Rightarrow>
             if length signatures = 0 then (None, st1)
             else scanSignatures w conn pid (sort_key (\<lambda>a. or0 (Some (slot a))) signatures) st1)"

subsection \<open>Detection\<close>

definition truthy :: "string option \<Rightarrow> bool" where
  "truthy s = (case s of None \<Rightarrow> False | Some x \<Rightarrow> x \<noteq> [])"

text \<open>The body of the \<^verbatim>\<open>try\<close> block of \<^verbatim>\<open>getDeploymentInfo\<close>: one attempt.\<close>

definition attempt :: "world \<Rightarrow> string \<Rightarrow> sys \<Rightarrow> (thrown + DeploymentInfo) \<times> sys" where
  "attempt w pid st =
     (case getNextHealthyConnection w st of
        (Inl e, st1) \<Rightarrow> (Inl e, st1)
      | (Inr connection, st1) \<Rightarrow>
          (case PublicKey w pid of
             Inl e \<Rightarrow> (Inl e, st1)
           | Inr key \<Rightarrow>
               (let r = getParsedAccountInfo w (tick st1) connection key;
                    st2 = step (st1\<lparr>rpc_calls := rpc_calls st1 @ [GetParsedAccountInfo connection key]\<rparr>)
                in case r of
                     Inl e \<Rightarrow> (Inl e, st2)
                   | Inr None \<Rightarrow> (Inl AccountNotFound, st2)
                   | Inr (Some accountInfo) \<Rightarrow>
                       if \<not> isProgramAccount (owner accountInfo)
                       then (Inl NotAProgramAccount, st2)
                       else
                         (case (if truthy (programData accountInfo)
                                then PublicKey w (the (programData accountInfo))
                                else PublicKey w pid) of
                            Inl e \<Rightarrow> (Inl e, st2)
                          | Inr targetAccount \<Rightarrow>
                              (case findDeploymentTransaction w connection targetAccount pid st2 of
                                 (None, st3) \<Rightarrow> (Inl DeploymentNotFound, st3)
                               | (Some deploymentInfo, st3) \<Rightarrow>
                                   (Inr deploymentInfo,
                                    cacheDeployment w pid (d_signature deploymentInfo)
                                      (d_slot deploymentInfo) (d_timestamp deploymentInfo)
                                      (truthy (programData accountInfo)) (programData accountInfo) st3))))))"

definition maxAttempts :: nat where
  "maxAttempts = 3"

text \<open>\<^verbatim>\<open>error instanceof Error ? error : new Error('Unknown error')\<close>\<close>

definition captured :: "thrown \<Rightarrow> thrown" where
  "captured e = (case e of Error m \<Rightarrow> Error m | NonError \<Rightarrow> UnknownError)"

text \<open>
  The \<^verbatim>\<open>while (attempts < maxAttempts)\<close> loop, with its two variables. The result is
  \<open>Inr (Some info)\<close> for a \<^verbatim>\<open>return\<close> inside the loop and \<open>Inl\<close> for the final \<^verbatim>\<open>throw\<close>.
\<close>

function attemptLoop ::
  "world \<Rightarrow> string \<Rightarrow> thrown option \<Rightarrow> nat \<Rightarrow> sys \<Rightarrow> (thrown + DeploymentInfo option) \<times> sys" where
  "attemptLoop w pid lastError attempts st =
     (if attempts < maxAttempts then
        (case attempt w pid st of
           (Inr deploymentInfo, st1) \<Rightarrow> (Inr (Some deploymentInfo), st1)
         | (Inl e, st1) \<Rightarrow> attemptLoop w pid (Some (captured e)) (attempts + 1) st1)
      else (Inl (case lastError of
                   Some e \<Rightarrow> e
                 | None \<Rightarrow> NoDeploymentInformation), st))"
  by pat_completeness auto
termination
  by (relation "measure (\<lambda>(w, pid, lastError, attempts, st). maxAttempts - attempts)") auto

text \<open>The result \<open>Inr None\<close> is the \<^verbatim>\<open>null\<close> that stands for a native program.\<close>

definition getDeploymentInfo :: "world \<Rightarrow> string \<Rightarrow> sys \<Rightarrow> (thrown + DeploymentInfo option) \<times> sys" where
  "getDeploymentInfo w pid st =
     (if isNativeProgram pid then (Inr None, st)
      else
        (case getCachedDeployment w pid st of
           (Some cachedInfo, st1) \<Rightarrow>
             (Inr (Some \<lparr>d_signature = deploymentSignature cachedInfo,
                         d_slot = deploymentSlot cachedInfo,
                         d_timestamp = deploymentTimestamp cachedInfo,
                         d_programDataAccount = programDataAccount cachedInfo\<rparr>), st1)
         | (None, st1) \<Rightarrow> attemptLoop w pid None 0 st1))"

section \<open>Notions used in the statements\<close>

text \<open>A probe succeeds when the endpoint answers with a positive slot number.\<close>

definition probe_ok :: "thrown + slot_response \<Rightarrow> bool" where
  "probe_ok r = (case r of Inr (Number n) \<Rightarrow> 0 < n | _ \<Rightarrow> False)"

text \<open>
  No endpoint has been found healthy by a probe yet: an endpoint that is marked healthy
  still carries the \<open>lastHealthCheck = 0\<close> of its construction.
\<close>

definition optimistic :: "sys \<Rightarrow> bool" where
  "optimistic st = (\<forall>ep\<in>set (endpoints st). isHealthy ep \<longrightarrow> lastHealthCheck ep = 0)"

text \<open>
  The classification of a transaction in the words of the specification, to be compared
  with \<open>isDeployment\<close> of the source: \<open>s\<close> occurs in a log line; the log lines contain a
  known deployment marker phrase, or a line that contains both the program identifier and
  the success marker; the reply to \<^verbatim>\<open>getParsedTransaction\<close> is a transaction with log
  output, and its log lines classify it as the deployment.
\<close>

definition has_substring :: "string \<Rightarrow> string \<Rightarrow> bool" where
  "has_substring log s = (\<exists>before after. log = before @ s @ after)"

definition spec_is_deployment :: "string \<Rightarrow> string list \<Rightarrow> bool" where
  "spec_is_deployment pid logs =
     (\<exists>log\<in>set logs. has_substring log ''Deployed program'' \<or>
                      has_substring log ''Deploy with ID'' \<or>
                      (has_substring log pid \<and> has_substring log ''success''))"

definition spec_deployment_reply :: "string \<Rightarrow> thrown + ParsedTransaction option \<Rightarrow> bool" where
  "spec_deployment_reply pid r =
     (\<exists>logs. r = Inr (Some \<lparr>meta = Some \<lparr>logMessages = Some logs\<rparr>\<rparr>) \<and>
             spec_is_deployment pid logs)"

text \<open>
  The result for a signature of the history: its signature, its slot, and its block time,
  or 0 where the ledger has none.
\<close>

definition deployment_of :: "ConfirmedSignatureInfo \<Rightarrow> DeploymentInfo" where
  "deployment_of s =
     \<lparr>d_signature = signature s, d_slot = slot s,
      d_timestamp = (case blockTime s of None \<Rightarrow> 0 | Some t \<Rightarrow> t),
      d_programDataAccount = None\<rparr>"

text \<open>The number of \<^verbatim>\<open>getParsedAccountInfo\<close> calls made so far.\<close>

definition is_account_fetch :: "rpc_call \<Rightarrow> bool" where
  "is_account_fetch c = (case c of GetParsedAccountInfo u a \<Rightarrow> True | _ \<Rightarrow> False)"

definition account_fetches :: "sys \<Rightarrow> nat" where
  "account_fetches st = length (filter is_account_fetch (rpc_calls st))"

section \<open>Examples\<close>

text \<open>
  An environment whose clock stands at a date in 2023, whose endpoints all answer the
  probe, where every account is absent, and whose file system works.
\<close>

definition ex_world :: world where
  "ex_world =
     \<lparr>now = (\<lambda>t. 1700000000000),
      getSlot = (\<lambda>t u. Inr (Number 100)),
      getParsedAccountInfo = (\<lambda>t u a. Inr None),
      getSignaturesForAddress = (\<lambda>t u a. Inr []),
      getParsedTransaction = (\<lambda>t u s. Inr None),
      isPublicKey = (\<lambda>s. True),
      publicKeyError = (\<lambda>s. InvalidPublicKey),
      fsFails = (\<lambda>t. False),
      parseEntries = (\<lambda>s. if s = ''{}'' then Inr [] else Inl (Error ''Unexpected token'')),
      stringifyEntries = (\<lambda>c. concat (map fst c))\<rparr>"

definition ex_primary :: RpcEndpoint where
  "ex_primary = \<lparr>url = ''http://main-endpoint.test'', name = ''Primary'', priority = 1,
                  isHealthy = True, lastHealthCheck = 0\<rparr>"

definition ex_backup :: RpcEndpoint where
  "ex_backup = \<lparr>url = ''http://fallback-endpoint.test'', name = ''Backup 1'', priority = 2,
                 isHealthy = True, lastHealthCheck = 0\<rparr>"

text \<open>The state after construction with one backup endpoint and no cache file.\<close>

definition ex_sys :: sys where
  "ex_sys =
     \<lparr>tick = 0, rpc_calls = [], cache_calls = [],
      endpoints = [ex_primary, ex_backup], currentEndpointIndex = 0,
      cache = [], cacheDirExists = True, cacheFile = None\<rparr>"

definition ex_pid :: string where
  "ex_pid = ''6EF8rrecthR5Dkzon8Nwu78hRvfCKubJ14M5uBEwF6P''"

text \<open>A record written one hour before the clock of \<open>ex_world\<close>.\<close>

definition ex_entry :: CacheEntry where
  "ex_entry =
     \<lparr>programId = ex_pid, deploymentSignature = ''test-signature'', deploymentSlot = 1000,
      deploymentTimestamp = 1600000000, lastChecked = 1699996400000,
      isProgramData = True, programDataAccount = Some ''test-program-data''\<rparr>"

definition ex_cached :: sys where
  "ex_cached = ex_sys\<lparr>cache := [(ex_pid, ex_entry)]\<rparr>"

text \<open>The same environment 25 hours later.\<close>

definition ex_later :: world where
  "ex_later = ex_world\<lparr>now := (\<lambda>t. 1700090000000)\<rparr>"

definition ex_corrupted :: sys where
  "ex_corrupted = ex_sys\<lparr>cacheFile := Some ''not json''\<rparr>"

text \<open>The environment in which no endpoint answers the probe.\<close>

definition ex_dead :: world where
  "ex_dead = ex_world\<lparr>getSlot := (\<lambda>t u. Inl (Error ''connection refused''))\<rparr>"

text \<open>The configuration from which the endpoints of \<open>ex_sys\<close> are constructed.\<close>

definition ex_penv :: process_env where
  "ex_penv = \<lparr>MAIN_RPC_URL = Some ''http://main-endpoint.test'',
              BACKUP_RPC_URLS = Some ''http://fallback-endpoint.test'',
              BACKUP_RPC_NAMES = None\<rparr>"

text \<open>
  A ledger on which \<open>ex_pid\<close> is a program owned by a loader, with a history of three
  transactions listed out of slot order; the one in slot 5 logs the deployment.
\<close>

definition ex_history :: "ConfirmedSignatureInfo list" where
  "ex_history =
     [\<lparr>signature = ''sig5'', slot = 5, blockTime = Some 1600000500\<rparr>,
      \<lparr>signature = ''sig2'', slot = 2, blockTime = Some 1600000200\<rparr>,
      \<lparr>signature = ''sig9'', slot = 9, blockTime = None\<rparr>]"

definition ex_tx :: "string \<Rightarrow> thrown + ParsedTransaction option" where
  "ex_tx s =
     (if s = ''sig2'' then Inr (Some \<lparr>meta = Some \<lparr>logMessages = Some [''unrelated'']\<rparr>\<rparr>)
      else if s = ''sig5'' then Inr (Some \<lparr>meta = Some \<lparr>logMessages = Some [''Deployed program X'']\<rparr>\<rparr>)
      else Inr None)"

definition ex_ledger :: world where
  "ex_ledger = ex_world
     \<lparr>getParsedAccountInfo :=
        (\<lambda>t u a. Inr (Some \<lparr>owner = ''BPFLoader2111111111111111111111111111111111'',
                               programData = None\<rparr>)),
      getSignaturesForAddress := (\<lambda>t u a. Inr ex_history),
      getParsedTransaction := (\<lambda>t u s. ex_tx s)\<rparr>"

text \<open>The same ledger, where no transaction logs a deployment.\<close>

definition ex_unmatched :: world where
  "ex_unmatched = ex_ledger
     \<lparr>getParsedTransaction :=
        (\<lambda>t u s. Inr (Some \<lparr>meta = Some \<lparr>logMessages = Some [''unrelated'']\<rparr>\<rparr>))\<rparr>"

text \<open>
  The same ledger with other replies to \<^verbatim>\<open>getParsedTransaction\<close>: the program identifier
  and the success marker on two lines in slot 2, no log output in slot 5, both on one
  line in slot 9; unrelated log output in every transaction; the other marker phrase in
  every transaction; and the replies of
  \<open>ex_tx\<close> with a throw for the transaction of slot 9.
\<close>

definition ex_ledger_with :: "(string \<Rightarrow> thrown + ParsedTransaction option) \<Rightarrow> world" where
  "ex_ledger_with f = ex_ledger\<lparr>getParsedTransaction := (\<lambda>t u s. f s)\<rparr>"

definition ex_logs :: "string list \<Rightarrow> thrown + ParsedTransaction option" where
  "ex_logs l = Inr (Some \<lparr>meta = Some \<lparr>logMessages = Some l\<rparr>\<rparr>)"

definition ex_tx_one_line :: "string \<Rightarrow> thrown + ParsedTransaction option" where
  "ex_tx_one_line s =
     (if s = ''sig2''
      then ex_logs [''Program 6EF8rrecthR5Dkzon8Nwu78hRvfCKubJ14M5uBEwF6P invoke [1]'',
                    ''Program log: success'']
      else if s = ''sig5'' then Inr (Some \<lparr>meta = None\<rparr>)
      else ex_logs [''Program 6EF8rrecthR5Dkzon8Nwu78hRvfCKubJ14M5uBEwF6P success''])"

definition ex_tx_unrelated :: "string \<Rightarrow> thrown + ParsedTransaction option" where
  "ex_tx_unrelated s = ex_logs [''unrelated'']"

definition ex_tx_deploy_id :: "string \<Rightarrow> thrown + ParsedTransaction option" where
  "ex_tx_deploy_id s = ex_logs [''Deploy with ID 6EF8rrecthR5Dkzon8Nwu78hRvfCKubJ14M5uBEwF6P'']"

definition ex_tx_throw :: "string \<Rightarrow> thrown + ParsedTransaction option" where
  "ex_tx_throw s = (if s = ''sig9'' then Inl (Error ''429 Too Many Requests'') else ex_tx s)"

text \<open>The same ledger, where the account has no transaction at all.\<close>

definition ex_empty_history :: world where
  "ex_empty_history = ex_ledger\<lparr>getSignaturesForAddress := (\<lambda>t u a. Inr [])\<rparr>"

text \<open>A ledger on which every account is a wallet, owned by the system program.\<close>

definition ex_wallet :: world where
  "ex_wallet = ex_world
     \<lparr>getParsedAccountInfo :=
        (\<lambda>t u a. Inr (Some \<lparr>owner = ''11111111111111111111111111111111'',
                               programData = None\<rparr>))\<rparr>"

text \<open>
  A ledger on which \<open>ex_pid\<close> is an upgradeable program: its account names a program
  data account, and the history of \<open>ex_history\<close> is that of the program data account;
  the program account itself has no transaction.
\<close>

definition ex_upgradeable :: world where
  "ex_upgradeable = ex_ledger
     \<lparr>getParsedAccountInfo :=
        (\<lambda>t u a. Inr (Some \<lparr>owner = ''BPFLoaderUpgradeab1e11111111111111111111111'',
                               programData = Some ''ex-program-data''\<rparr>)),
      getSignaturesForAddress :=
        (\<lambda>t u a. if a = ''ex-program-data'' then Inr ex_history else Inr [])\<rparr>"

text \<open>
  The same ledger behind a rate limit: \<^verbatim>\<open>getParsedAccountInfo\<close> throws until the clock
  of the model reaches 5.
\<close>

definition ex_retry :: world where
  "ex_retry = ex_upgradeable
     \<lparr>getParsedAccountInfo :=
        (\<lambda>t u a. if t < 5 then Inl (Error ''429 Too Many Requests'')
                  else getParsedAccountInfo ex_upgradeable t u a)\<rparr>"

section \<open>Endpoint selection\<close>

lemma ex_pid_not_native: "\<not> isNativeProgram ex_pid"
  by (simp add: isNativeProgram_def NATIVE_PROGRAMS_def ex_pid_def)

lemma checkEndpointHealth_eq:
  "checkEndpointHealth w ep st =
     (probe_ok (getSlot w (tick st) (url ep)),
      step (st\<lparr>rpc_calls := rpc_calls st @ [GetSlot (url ep)]\<rparr>))"
  by (simp add: checkEndpointHealth_def probe_ok_def Let_def
      split: sum.splits slot_response.splits)

lemma updateEndpointHealth_eq:
  "updateEndpointHealth w i st =
     (if healthCheckInterval < now w (tick st) - lastHealthCheck (endpoints st ! i)
      then (step (step st))
             \<lparr>rpc_calls := rpc_calls st @ [GetSlot (url (endpoints st ! i))],
              endpoints := (endpoints st)
                [i := (endpoints st ! i)
                        \<lparr>isHealthy := probe_ok (getSlot w (Suc (tick st)) (url (endpoints st ! i))),
                         lastHealthCheck := now w (tick st)\<rparr>]\<rparr>
      else step st)"
  by (simp add: updateEndpointHealth_def checkEndpointHealth_eq step_def Let_def)

lemma length_endpoints_update [simp]:
  "length (endpoints (updateEndpointHealth w i st)) = length (endpoints st)"
  by (simp add: updateEndpointHealth_eq step_def)

lemma update_index [simp]:
  "currentEndpointIndex (updateEndpointHealth w i st) = currentEndpointIndex st"
  by (simp add: updateEndpointHealth_eq step_def)

lemma update_endpoints:
  "endpoints (updateEndpointHealth w i st) = endpoints st \<or>
   (\<exists>h. endpoints (updateEndpointHealth w i st) =
      (endpoints st)[i := (endpoints st ! i)\<lparr>isHealthy := h, lastHealthCheck := now w (tick st)\<rparr>])"
  by (auto simp: updateEndpointHealth_eq step_def)

lemma update_other:
  "j \<noteq> i \<Longrightarrow> endpoints (updateEndpointHealth w i st) ! j = endpoints st ! j"
  using update_endpoints[of w i st] by auto

lemma update_url:
  "url (endpoints (updateEndpointHealth w i st) ! j) = url (endpoints st ! j)"
proof (cases "j = i")
  case False
  then show ?thesis by (simp add: update_other)
next
  case True
  show ?thesis
  proof (cases "i < length (endpoints st)")
    case l: True
    with True update_endpoints[of w i st] show ?thesis by auto
  next
    case l: False
    then have "length (endpoints st) \<le> i" by simp
    with update_endpoints[of w i st] show ?thesis by (auto simp: list_update_beyond)
  qed
qed

lemma healthyLoop_result:
  "healthyLoop w i st = (r, st') \<Longrightarrow>
     (r = Inl NoHealthyEndpoints) \<or> (\<exists>ep\<in>set (endpoints st'). isHealthy ep \<and> r = Inr (url ep))"
proof (induction w i st rule: healthyLoop.induct)
  case (1 w i st)
  show ?case
  proof (cases "i < length (endpoints st)")
    case False
    with "1.prems" show ?thesis by simp
  next
    case True
    let ?st1 = "updateEndpointHealth w i st"
    show ?thesis
    proof (cases "isHealthy (endpoints ?st1 ! i)")
      case h: True
      from True have "endpoints ?st1 ! i \<in> set (endpoints ?st1)" by simp
      with True h "1.prems" show ?thesis by (auto simp: Let_def)
    next
      case h: False
      with True "1.prems" have "healthyLoop w (i + 1) ?st1 = (r, st')" by (simp add: Let_def)
      with "1.IH" True h show ?thesis by simp
    qed
  qed
qed

lemma nextLoop_result:
  "currentEndpointIndex st < length (endpoints st) \<Longrightarrow> nextLoop w tried st = (r, st') \<Longrightarrow>
     (r = Inl NoHealthyEndpoints) \<or>
     (currentEndpointIndex st' < length (endpoints st') \<and>
      isHealthy (endpoints st' ! currentEndpointIndex st') \<and>
      r = Inr (url (endpoints st' ! currentEndpointIndex st')))"
proof (induction w tried st rule: nextLoop.induct)
  case (1 w tried st)
  let ?i = "currentEndpointIndex st"
  show ?case
  proof (cases "tried < length (endpoints st)")
    case False
    with "1.prems" show ?thesis by simp
  next
    case True
    let ?st1 = "updateEndpointHealth w ?i st"
    show ?thesis
    proof (cases "isHealthy (endpoints ?st1 ! ?i)")
      case h: True
      with True "1.prems" show ?thesis by (auto simp: Let_def)
    next
      case h: False
      let ?st2 = "?st1\<lparr>currentEndpointIndex := (?i + 1) mod length (endpoints ?st1)\<rparr>"
      from True h "1.prems" have run: "nextLoop w (tried + 1) ?st2 = (r, st')"
        by (simp add: Let_def)
      from "1.prems"(1) have "0 < length (endpoints st)" by auto
      then have "currentEndpointIndex ?st2 < length (endpoints ?st2)" by simp
      with "1.IH"[OF True refl "1.prems"(1) refl h] run show ?thesis by simp
    qed
  qed
qed

lemma update_healthy_probed:
  assumes "optimistic st" and "i < length (endpoints st)"
    and "healthCheckInterval < now w (tick st)"
    and "isHealthy (endpoints (updateEndpointHealth w i st) ! i)"
  shows "rpc_calls (updateEndpointHealth w i st) = rpc_calls st @ [GetSlot (url (endpoints st ! i))]
       \<and> probe_ok (getSlot w (tick (updateEndpointHealth w i st) - 1) (url (endpoints st ! i)))"
proof (cases "healthCheckInterval < now w (tick st) - lastHealthCheck (endpoints st ! i)")
  case True
  with assms(2,4) show ?thesis by (simp add: updateEndpointHealth_eq step_def)
next
  case False
  with assms(2,4) have "isHealthy (endpoints st ! i)" by (simp add: updateEndpointHealth_eq step_def)
  with assms(1,2) have "lastHealthCheck (endpoints st ! i) = 0" by (simp add: optimistic_def)
  with False assms(3) show ?thesis by simp
qed

lemma update_unhealthy_optimistic:
  assumes "optimistic st" and "i < length (endpoints st)"
    and "\<not> isHealthy (endpoints (updateEndpointHealth w i st) ! i)"
  shows "optimistic (updateEndpointHealth w i st)
       \<and> (\<exists>calls. rpc_calls (updateEndpointHealth w i st) = rpc_calls st @ calls)"
proof (cases "healthCheckInterval < now w (tick st) - lastHealthCheck (endpoints st ! i)")
  case True
  with assms(2,3) have h: "\<not> probe_ok (getSlot w (Suc (tick st)) (url (endpoints st ! i)))"
    by (simp add: updateEndpointHealth_eq step_def)
  have "optimistic (updateEndpointHealth w i st)"
    unfolding optimistic_def
  proof (intro ballI impI)
    fix ep assume ep: "ep \<in> set (endpoints (updateEndpointHealth w i st))" and "isHealthy ep"
    with True h assms(2) have "ep \<in> set (endpoints st)"
      by (auto simp: updateEndpointHealth_eq step_def dest!: subsetD[OF set_update_subset_insert])
    with assms(1) \<open>isHealthy ep\<close> show "lastHealthCheck ep = 0" by (simp add: optimistic_def)
  qed
  moreover from True have "rpc_calls (updateEndpointHealth w i st) =
      rpc_calls st @ [GetSlot (url (endpoints st ! i))]"
    by (simp add: updateEndpointHealth_eq step_def)
  ultimately show ?thesis by blast
next
  case False
  with assms(1) show ?thesis by (simp add: updateEndpointHealth_eq step_def optimistic_def)
qed

lemma healthyLoop_probes:
  "\<forall>t. healthCheckInterval < now w t \<Longrightarrow> optimistic st \<Longrightarrow>
   healthyLoop w i st = (Inr c, st') \<Longrightarrow>
     (\<exists>calls. rpc_calls st' = rpc_calls st @ calls @ [GetSlot c]) \<and>
     probe_ok (getSlot w (tick st' - 1) c)"
proof (induction w i st rule: healthyLoop.induct)
  case (1 w i st)
  let ?st1 = "updateEndpointHealth w i st"
  from "1.prems"(3) have len: "i < length (endpoints st)"
    by (auto simp: NoHealthyEndpoints_def split: if_splits)
  from "1.prems"(1) have clock: "healthCheckInterval < now w (tick st)" by simp
  show ?case
  proof (cases "isHealthy (endpoints ?st1 ! i)")
    case True
    with len "1.prems"(3) have c: "c = url (endpoints st ! i)" and st': "st' = ?st1"
      by (simp_all add: Let_def update_url)
    from update_healthy_probed[OF "1.prems"(2) len clock True] show ?thesis
      unfolding c st' by simp
  next
    case False
    with len "1.prems"(3) have run: "healthyLoop w (i + 1) ?st1 = (Inr c, st')"
      by (simp add: Let_def)
    from update_unhealthy_optimistic[OF "1.prems"(2) len False]
    obtain calls where opt: "optimistic ?st1" and calls: "rpc_calls ?st1 = rpc_calls st @ calls"
      by blast
    from "1.IH"[OF len refl False "1.prems"(1) opt run] calls show ?thesis by auto
  qed
qed

lemma nextLoop_probes:
  "\<forall>t. healthCheckInterval < now w t \<Longrightarrow> optimistic st \<Longrightarrow>
   currentEndpointIndex st < length (endpoints st) \<Longrightarrow>
   nextLoop w tried st = (Inr c, st') \<Longrightarrow>
     (\<exists>calls. rpc_calls st' = rpc_calls st @ calls @ [GetSlot c]) \<and>
     probe_ok (getSlot w (tick st' - 1) c)"
proof (induction w tried st rule: nextLoop.induct)
  case (1 w tried st)
  let ?i = "currentEndpointIndex st"
  let ?st1 = "updateEndpointHealth w ?i st"
  let ?st2 = "?st1\<lparr>currentEndpointIndex := (?i + 1) mod length (endpoints ?st1)\<rparr>"
  note len = "1.prems"(3)
  from "1.prems"(4) have tr: "tried < length (endpoints st)"
    by (auto simp: NoHealthyEndpoints_def split: if_splits)
  from "1.prems"(1) have clock: "healthCheckInterval < now w (tick st)" by simp
  show ?case
  proof (cases "isHealthy (endpoints ?st1 ! ?i)")
    case True
    with len tr "1.prems"(4) have c: "c = url (endpoints st ! ?i)" and st': "st' = ?st1"
      by (simp_all add: Let_def update_url)
    from update_healthy_probed[OF "1.prems"(2) len clock True] show ?thesis
      unfolding c st' by simp
  next
    case False
    with len tr "1.prems"(4) have run: "nextLoop w (tried + 1) ?st2 = (Inr c, st')"
      by (simp add: Let_def)
    from update_unhealthy_optimistic[OF "1.prems"(2) len False]
    obtain calls where opt: "optimistic ?st1" and calls: "rpc_calls ?st1 = rpc_calls st @ calls"
      by blast
    from opt have opt2: "optimistic ?st2" by (simp add: optimistic_def)
    from len have "0 < length (endpoints st)" by auto
    then have len2: "currentEndpointIndex ?st2 < length (endpoints ?st2)" by simp
    from "1.IH"[OF tr refl len refl False "1.prems"(1) opt2 len2 run] calls show ?thesis by auto
  qed
qed

lemma addBackups_fresh:
  "\<forall>ep\<in>set eps. isHealthy ep \<and> lastHealthCheck ep = 0 \<Longrightarrow>
   \<forall>ep\<in>set (addBackups names index us eps). isHealthy ep \<and> lastHealthCheck ep = 0"
proof (induction us arbitrary: index eps)
  case Nil
  then show ?case by simp
next
  case (Cons u us)
  show ?case
  proof (cases "trim u = []")
    case True
    with Cons.IH[OF Cons.prems] show ?thesis by simp
  next
    case False
    let ?new = "\<lparr>url = trim u, name = backupName names index, priority = index + 2,
                  isHealthy = True, lastHealthCheck = 0\<rparr>"
    from Cons.prems have "\<forall>ep\<in>set (eps @ [?new]). isHealthy ep \<and> lastHealthCheck ep = 0"
      by simp
    from Cons.IH[OF this] False show ?thesis by simp
  qed
qed

lemma constructor_fresh:
  assumes "RpcService_endpoints penv = Inr eps"
  shows "\<forall>ep\<in>set eps. isHealthy ep \<and> lastHealthCheck ep = 0"
proof -
  from assms obtain primaryUrl names urls where
    eps: "eps = sort_key priority (addBackups names 0 urls
            [\<lparr>url = primaryUrl, name = ''Primary'', priority = 1,
              isHealthy = True, lastHealthCheck = 0\<rparr>])"
    unfolding RpcService_endpoints_def Let_def
    by (cases "MAIN_RPC_URL penv") (simp_all split: if_splits, blast)
  have "\<forall>ep\<in>set [\<lparr>url = primaryUrl, name = ''Primary'', priority = 1,
              isHealthy = True, lastHealthCheck = 0\<rparr>]. isHealthy ep \<and> lastHealthCheck ep = 0"
    by simp
  from addBackups_fresh[OF this] show ?thesis unfolding eps by simp
qed

lemma length_addBackups: "length eps \<le> length (addBackups names index us eps)"
proof (induction us arbitrary: index eps)
  case Nil
  then show ?case by simp
next
  case (Cons u us)
  show ?case
  proof (cases "trim u = []")
    case True
    with Cons.IH[of eps "Suc index"] show ?thesis by simp
  next
    case False
    let ?new = "\<lparr>url = trim u, name = backupName names index, priority = index + 2,
                  isHealthy = True, lastHealthCheck = 0\<rparr>"
    from Cons.IH[of "eps @ [?new]" "Suc index"] False show ?thesis by simp
  qed
qed

lemma constructor_nonempty:
  assumes "RpcService_endpoints penv = Inr eps"
  shows "0 < length eps"
proof -
  from assms obtain primary names urls where
    eps: "eps = sort_key priority (addBackups names 0 urls [primary])"
    unfolding RpcService_endpoints_def Let_def
    by (cases "MAIN_RPC_URL penv") (simp_all split: if_splits, blast)
  from length_addBackups[of "[primary]" names 0 urls] show ?thesis unfolding eps by auto
qed

subsection \<open>The examples, evaluated\<close>

lemma ex_first_call:
  "getNextHealthyConnection ex_world ex_sys =
     (Inr ''http://main-endpoint.test'',
      ex_sys\<lparr>tick := 2, rpc_calls := [GetSlot ''http://main-endpoint.test''],
             endpoints := [ex_primary\<lparr>lastHealthCheck := 1700000000000\<rparr>, ex_backup]\<rparr>)"
  by (simp add: getNextHealthyConnection_def ex_world_def ex_sys_def ex_primary_def ex_backup_def
      updateEndpointHealth_eq probe_ok_def step_def healthCheckInterval_def)

lemma ex_second_call:
  "getNextHealthyConnection ex_world
     (ex_sys\<lparr>tick := 2, rpc_calls := [GetSlot ''http://main-endpoint.test''],
             endpoints := [ex_primary\<lparr>lastHealthCheck := 1700000000000\<rparr>, ex_backup]\<rparr>) =
     (Inr ''http://main-endpoint.test'',
      ex_sys\<lparr>tick := 3, rpc_calls := [GetSlot ''http://main-endpoint.test''],
             endpoints := [ex_primary\<lparr>lastHealthCheck := 1700000000000\<rparr>, ex_backup]\<rparr>)"
  by (simp add: getNextHealthyConnection_def ex_world_def ex_sys_def ex_primary_def ex_backup_def
      updateEndpointHealth_eq probe_ok_def step_def healthCheckInterval_def)

lemma ex_dead_healthy:
  "getHealthyConnection ex_dead ex_sys =
     (Inl NoHealthyEndpoints,
      ex_sys\<lparr>tick := 4,
             rpc_calls := [GetSlot ''http://main-endpoint.test'', GetSlot ''http://fallback-endpoint.test''],
             endpoints := [ex_primary\<lparr>isHealthy := False, lastHealthCheck := 1700000000000\<rparr>,
                           ex_backup\<lparr>isHealthy := False, lastHealthCheck := 1700000000000\<rparr>]\<rparr>)"
  by (simp add: getHealthyConnection_def ex_dead_def ex_world_def ex_sys_def ex_primary_def
      ex_backup_def updateEndpointHealth_eq probe_ok_def step_def healthCheckInterval_def)

lemma ex_dead_next:
  "getNextHealthyConnection ex_dead ex_sys =
     (Inl NoHealthyEndpoints,
      ex_sys\<lparr>tick := 4,
             rpc_calls := [GetSlot ''http://main-endpoint.test'', GetSlot ''http://fallback-endpoint.test''],
             endpoints := [ex_primary\<lparr>isHealthy := False, lastHealthCheck := 1700000000000\<rparr>,
                           ex_backup\<lparr>isHealthy := False, lastHealthCheck := 1700000000000\<rparr>]\<rparr>)"
  by (simp add: getNextHealthyConnection_def ex_dead_def ex_world_def ex_sys_def ex_primary_def
      ex_backup_def updateEndpointHealth_eq probe_ok_def step_def healthCheckInterval_def)

lemma show_nat_1: "show_nat (Suc 0) = ''1''"
  by code_simp

lemma ex_constructed: "RpcService_endpoints ex_penv = Inr (endpoints ex_sys)"
  by (simp add: show_nat_1 del: show_nat.simps add: RpcService_endpoints_def ex_penv_def ex_sys_def ex_primary_def ex_backup_def
      backupName_def trim_def trimStart_def trimEnd_def is_space1_def is_space2_def
      is_space3_def Let_def)

subsection \<open>Consecutive calls of the round-robin policy\<close>

text \<open>
  Claim C1. With more than one endpoint healthy, two consecutive calls of the round-robin
  policy \<open>getNextHealthyConnection\<close> are to return endpoints in rotating order, never the
  same endpoint twice in a row. The code does not rotate: with the primary and one backup
  endpoint, both marked healthy and both answering every probe, the first call returns
  the primary and leaves the cursor on it, and the second call returns the primary
  again. The cursor is advanced only past an endpoint that is found unhealthy, since the
  \<^verbatim>\<open>return\<close> for a healthy endpoint comes before the advance.
\<close>

theorem next_healthy_repeats_endpoint:
  "fst (getNextHealthyConnection ex_world ex_sys) = Inr ''http://main-endpoint.test'' \<and>
   currentEndpointIndex (snd (getNextHealthyConnection ex_world ex_sys)) = 0 \<and>
   fst (getNextHealthyConnection ex_world (snd (getNextHealthyConnection ex_world ex_sys))) =
     Inr ''http://main-endpoint.test'' \<and>
   isHealthy (endpoints (snd (getNextHealthyConnection ex_world ex_sys)) ! 0) \<and>
   isHealthy (endpoints (snd (getNextHealthyConnection ex_world ex_sys)) ! 1) \<and>
   url (endpoints (snd (getNextHealthyConnection ex_world ex_sys)) ! 1) =
     ''http://fallback-endpoint.test'' \<and>
   probe_ok (getSlot ex_world 2 ''http://fallback-endpoint.test'')"
  by (simp add: ex_first_call ex_second_call)
     (simp add: ex_sys_def ex_primary_def ex_backup_def ex_world_def probe_ok_def)

subsection \<open>No healthy endpoint\<close>

text \<open>
  Claim C2. When no endpoint is healthy after a selection call has tried them, the call
  has failed with \<open>NoHealthyEndpoints\<close>, for \<open>getHealthyConnection\<close> and for
  \<open>getNextHealthyConnection\<close>. Neither policy fails with anything else, and
  \<open>NoHealthyEndpoints\<close> differs from every other value that the services throw, so a
  caller can tell it apart by its message.
\<close>

theorem all_unhealthy_fails_with_NoHealthyEndpoints:
  assumes "currentEndpointIndex st < length (endpoints st)"
  shows "((\<forall>ep\<in>set (endpoints (snd (getHealthyConnection w st))). \<not> isHealthy ep) \<longrightarrow>
            fst (getHealthyConnection w st) = Inl NoHealthyEndpoints)
       \<and> ((\<forall>ep\<in>set (endpoints (snd (getNextHealthyConnection w st))). \<not> isHealthy ep) \<longrightarrow>
            fst (getNextHealthyConnection w st) = Inl NoHealthyEndpoints)
       \<and> (\<forall>e. fst (getHealthyConnection w st) = Inl e \<or> fst (getNextHealthyConnection w st) = Inl e
              \<longrightarrow> e = NoHealthyEndpoints)
       \<and> NoHealthyEndpoints \<notin> {ConfigurationError, AccountNotFound, NotAProgramAccount,
            DeploymentNotFound, UnknownError, NoDeploymentInformation, InvalidPublicKey,
            UndefinedEndpoint, NonError}"
proof -
  obtain r1 s1 where h: "healthyLoop w 0 st = (r1, s1)" by (cases "healthyLoop w 0 st")
  obtain r2 s2 where n: "nextLoop w 0 st = (r2, s2)" by (cases "nextLoop w 0 st")
  from healthyLoop_result[OF h]
  have a: "r1 = Inl NoHealthyEndpoints \<or> (\<exists>ep\<in>set (endpoints s1). isHealthy ep \<and> r1 = Inr (url ep))" .
  from nextLoop_result[OF assms n]
  have b: "r2 = Inl NoHealthyEndpoints \<or>
     (currentEndpointIndex s2 < length (endpoints s2) \<and>
      isHealthy (endpoints s2 ! currentEndpointIndex s2) \<and>
      r2 = Inr (url (endpoints s2 ! currentEndpointIndex s2)))" .
  have c: "NoHealthyEndpoints \<notin> {ConfigurationError, AccountNotFound, NotAProgramAccount,
            DeploymentNotFound, UnknownError, NoDeploymentInformation, InvalidPublicKey,
            UndefinedEndpoint, NonError}"
    by (simp add: NoHealthyEndpoints_def ConfigurationError_def AccountNotFound_def
        NotAProgramAccount_def DeploymentNotFound_def UnknownError_def
        NoDeploymentInformation_def InvalidPublicKey_def UndefinedEndpoint_def)
  from a have a1: "(\<forall>ep\<in>set (endpoints s1). \<not> isHealthy ep) \<longrightarrow> r1 = Inl NoHealthyEndpoints"
    by blast
  from b have b1: "(\<forall>ep\<in>set (endpoints s2). \<not> isHealthy ep) \<longrightarrow> r2 = Inl NoHealthyEndpoints"
    using nth_mem by blast
  from a b have d: "\<forall>e. r1 = Inl e \<or> r2 = Inl e \<longrightarrow> e = NoHealthyEndpoints" by auto
  from a1 b1 c d show ?thesis
    unfolding getHealthyConnection_def getNextHealthyConnection_def h n fst_conv snd_conv
    by blast
qed

theorem all_unhealthy_fails_with_NoHealthyEndpoints_witness:
  "currentEndpointIndex ex_sys < length (endpoints ex_sys) \<and>
   \<not> isHealthy (endpoints (snd (getHealthyConnection ex_dead ex_sys)) ! 0) \<and>
   \<not> isHealthy (endpoints (snd (getHealthyConnection ex_dead ex_sys)) ! 1) \<and>
   length (endpoints (snd (getHealthyConnection ex_dead ex_sys))) = 2 \<and>
   \<not> isHealthy (endpoints (snd (getNextHealthyConnection ex_dead ex_sys)) ! 0) \<and>
   \<not> isHealthy (endpoints (snd (getNextHealthyConnection ex_dead ex_sys)) ! 1) \<and>
   length (endpoints (snd (getNextHealthyConnection ex_dead ex_sys))) = 2 \<and>
   fst (getHealthyConnection ex_dead ex_sys) = Inl NoHealthyEndpoints \<and>
   fst (getNextHealthyConnection ex_dead ex_sys) = Inl NoHealthyEndpoints"
proof -
  have h1: "currentEndpointIndex ex_sys < length (endpoints ex_sys)" by (simp add: ex_sys_def)
  have h2: "\<forall>ep\<in>set (endpoints (snd (getHealthyConnection ex_dead ex_sys))). \<not> isHealthy ep"
    by (simp add: ex_dead_healthy)
  have h3: "\<forall>ep\<in>set (endpoints (snd (getNextHealthyConnection ex_dead ex_sys))). \<not> isHealthy ep"
    by (simp add: ex_dead_next)
  from all_unhealthy_fails_with_NoHealthyEndpoints[OF h1, of ex_dead] h2 h3
  have "fst (getHealthyConnection ex_dead ex_sys) = Inl NoHealthyEndpoints"
    and "fst (getNextHealthyConnection ex_dead ex_sys) = Inl NoHealthyEndpoints"
    by blast+
  moreover have "\<not> isHealthy (endpoints (snd (getHealthyConnection ex_dead ex_sys)) ! 0)"
    "\<not> isHealthy (endpoints (snd (getHealthyConnection ex_dead ex_sys)) ! 1)"
    "length (endpoints (snd (getHealthyConnection ex_dead ex_sys))) = 2"
    "\<not> isHealthy (endpoints (snd (getNextHealthyConnection ex_dead ex_sys)) ! 0)"
    "\<not> isHealthy (endpoints (snd (getNextHealthyConnection ex_dead ex_sys)) ! 1)"
    "length (endpoints (snd (getNextHealthyConnection ex_dead ex_sys))) = 2"
    by (simp_all add: ex_dead_healthy ex_dead_next)
  ultimately show ?thesis using h1 by simp
qed

subsection \<open>The first health check\<close>

text \<open>
  Claim C10. Every endpoint is constructed with \<open>isHealthy = True\<close> and
  \<open>lastHealthCheck = 0\<close>, and the cursor of the constructed service is in range. Under
  a clock later than five minutes past the epoch, an
  endpoint with \<open>lastHealthCheck = 0\<close> is probed by \<open>updateEndpointHealth\<close> and its
  health becomes the outcome of the probe; and as long as no endpoint has been found
  healthy by a probe (\<open>optimistic\<close>, which holds after construction), the endpoint that
  either selection policy returns has been probed in that very call, as its last remote
  operation, with a positive slot in reply.
\<close>

theorem probe_before_trust:
  assumes clock: "\<forall>t. healthCheckInterval < now w t"
  shows "(RpcService_new penv st0 = Inr st \<longrightarrow>
            (\<forall>ep\<in>set (endpoints st). isHealthy ep \<and> lastHealthCheck ep = 0) \<and>
            optimistic st \<and> currentEndpointIndex st < length (endpoints st))
       \<and> (i < length (endpoints st) \<and> lastHealthCheck (endpoints st ! i) = 0 \<longrightarrow>
            rpc_calls (updateEndpointHealth w i st) =
              rpc_calls st @ [GetSlot (url (endpoints st ! i))] \<and>
            isHealthy (endpoints (updateEndpointHealth w i st) ! i) =
              probe_ok (getSlot w (Suc (tick st)) (url (endpoints st ! i))))
       \<and> (optimistic st \<and> getHealthyConnection w st = (Inr c, st') \<longrightarrow>
            (\<exists>calls. rpc_calls st' = rpc_calls st @ calls @ [GetSlot c]) \<and>
            probe_ok (getSlot w (tick st' - 1) c))
       \<and> (optimistic st \<and> currentEndpointIndex st < length (endpoints st) \<and>
          getNextHealthyConnection w st = (Inr c, st') \<longrightarrow>
            (\<exists>calls. rpc_calls st' = rpc_calls st @ calls @ [GetSlot c]) \<and>
            probe_ok (getSlot w (tick st' - 1) c))"
proof (intro conjI impI)
  assume "RpcService_new penv st0 = Inr st"
  then obtain eps where eps: "RpcService_endpoints penv = Inr eps"
    and st: "st = st0\<lparr>endpoints := eps, currentEndpointIndex := 0\<rparr>"
    by (auto simp: RpcService_new_def split: sum.splits)
  from constructor_fresh[OF eps] st
  show fresh: "\<forall>ep\<in>set (endpoints st). isHealthy ep \<and> lastHealthCheck ep = 0" by simp
  then show "optimistic st" by (simp add: optimistic_def)
  from constructor_nonempty[OF eps] st
  show "currentEndpointIndex st < length (endpoints st)" by simp
next
  assume a: "i < length (endpoints st) \<and> lastHealthCheck (endpoints st ! i) = 0"
  from clock have due: "healthCheckInterval < now w (tick st)" by simp
  from a due show "rpc_calls (updateEndpointHealth w i st) =
      rpc_calls st @ [GetSlot (url (endpoints st ! i))]"
    by (simp add: updateEndpointHealth_eq step_def)
  from a due show "isHealthy (endpoints (updateEndpointHealth w i st) ! i) =
      probe_ok (getSlot w (Suc (tick st)) (url (endpoints st ! i)))"
    by (simp add: updateEndpointHealth_eq step_def)
next
  assume a: "optimistic st \<and> getHealthyConnection w st = (Inr c, st')"
  then have run: "healthyLoop w 0 st = (Inr c, st')" by (simp add: getHealthyConnection_def)
  from healthyLoop_probes[OF clock _ run] a
  show "\<exists>calls. rpc_calls st' = rpc_calls st @ calls @ [GetSlot c]"
    and "probe_ok (getSlot w (tick st' - 1) c)" by blast+
next
  assume a: "optimistic st \<and> currentEndpointIndex st < length (endpoints st) \<and>
          getNextHealthyConnection w st = (Inr c, st')"
  then have run: "nextLoop w 0 st = (Inr c, st')" by (simp add: getNextHealthyConnection_def)
  from nextLoop_probes[OF clock _ _ run] a
  show "\<exists>calls. rpc_calls st' = rpc_calls st @ calls @ [GetSlot c]"
    and "probe_ok (getSlot w (tick st' - 1) c)" by blast+
qed

theorem probe_before_trust_witness:
  "(\<forall>t. healthCheckInterval < now ex_world t) \<and>
   RpcService_new ex_penv ex_sys = Inr ex_sys \<and>
   isHealthy (endpoints ex_sys ! 0) \<and> lastHealthCheck (endpoints ex_sys ! 0) = 0 \<and>
   isHealthy (endpoints ex_sys ! 1) \<and> lastHealthCheck (endpoints ex_sys ! 1) = 0 \<and>
   optimistic ex_sys \<and>
   fst (getNextHealthyConnection ex_world ex_sys) = Inr ''http://main-endpoint.test'' \<and>
   rpc_calls (snd (getNextHealthyConnection ex_world ex_sys)) =
     [GetSlot ''http://main-endpoint.test''] \<and>
   probe_ok (getSlot ex_world (tick (snd (getNextHealthyConnection ex_world ex_sys)) - 1)
     ''http://main-endpoint.test'')"
proof -
  let ?c = "''http://main-endpoint.test''"
  let ?s1 = "snd (getNextHealthyConnection ex_world ex_sys)"
  have clock: "\<forall>t. healthCheckInterval < now ex_world t"
    by (simp add: ex_world_def healthCheckInterval_def)
  have built: "RpcService_new ex_penv ex_sys = Inr ex_sys"
    by (simp add: RpcService_new_def ex_constructed) (simp add: ex_sys_def)
  have run: "getNextHealthyConnection ex_world ex_sys = (Inr ?c, ?s1)" by (simp add: ex_first_call)
  note inst = probe_before_trust[OF clock, of ex_penv ex_sys ex_sys 0 ?c ?s1]
  from inst built have fresh: "\<forall>ep\<in>set (endpoints ex_sys). isHealthy ep \<and> lastHealthCheck ep = 0"
    and opt: "optimistic ex_sys"
    and idx: "currentEndpointIndex ex_sys < length (endpoints ex_sys)"
    by blast+
  from inst opt idx run have probed: "probe_ok (getSlot ex_world (tick ?s1 - 1) ?c)" by blast
  from fresh have ends: "isHealthy (endpoints ex_sys ! 0) \<and> lastHealthCheck (endpoints ex_sys ! 0) = 0 \<and>
     isHealthy (endpoints ex_sys ! 1) \<and> lastHealthCheck (endpoints ex_sys ! 1) = 0"
    by (simp add: ex_sys_def)
  have calls: "rpc_calls ?s1 = [GetSlot ?c]" by (simp add: ex_first_call)
  have res: "fst (getNextHealthyConnection ex_world ex_sys) = Inr ?c" by (simp add: ex_first_call)
  from clock built ends opt res calls probed show ?thesis by blast
qed

section \<open>The history scan\<close>

lemma or0_Some [simp]: "or0 (Some n) = n"
  by (simp add: or0_def)

lemma isDeployment_spec: "isDeployment pid logs = spec_is_deployment pid logs"
  by (auto simp: isDeployment_def spec_is_deployment_def str_includes_def has_substring_def
      sublist_def list_ex_iff)

lemma reply_spec:
  "spec_deployment_reply pid r =
     (case r of
        Inl e \<Rightarrow> False
      | Inr tx \<Rightarrow> (case tx_logMessages tx of None \<Rightarrow> False | Some logs \<Rightarrow> isDeployment pid logs))"
proof (cases r)
  case (Inl e)
  then show ?thesis by (simp add: spec_deployment_reply_def)
next
  case (Inr tx)
  show ?thesis
  proof (cases tx)
    case None
    with Inr show ?thesis by (simp add: spec_deployment_reply_def tx_logMessages_def)
  next
    case (Some t)
    obtain m where t: "t = \<lparr>meta = m\<rparr>" by (cases t) simp
    show ?thesis
    proof (cases m)
      case None
      with Inr Some t show ?thesis by (simp add: spec_deployment_reply_def tx_logMessages_def)
    next
      case (Some mm)
      obtain l where mm: "mm = \<lparr>logMessages = l\<rparr>" by (cases mm) simp
      from Inr \<open>tx = Some t\<close> t Some mm show ?thesis
        by (cases l) (simp_all add: spec_deployment_reply_def tx_logMessages_def isDeployment_spec)
    qed
  qed
qed

lemma scanSignatures_static:
  assumes static: "\<forall>t s. getParsedTransaction w t conn s = txs s"
  shows "fst (scanSignatures w conn pid sigs st) =
       (case dropWhile (\<lambda>s. \<not> spec_deployment_reply pid (txs (signature s)) \<and>
                            \<not> isl (txs (signature s))) sigs of
          [] \<Rightarrow> None
        | s # rest \<Rightarrow>
            if spec_deployment_reply pid (txs (signature s)) then Some (deployment_of s) else None)
     \<and> rpc_calls (snd (scanSignatures w conn pid sigs st)) =
         rpc_calls st @ map (\<lambda>s. GetParsedTransaction conn (signature s))
           (takeWhile (\<lambda>s. \<not> spec_deployment_reply pid (txs (signature s)) \<and>
                            \<not> isl (txs (signature s))) sigs @
            take 1 (dropWhile (\<lambda>s. \<not> spec_deployment_reply pid (txs (signature s)) \<and>
                                   \<not> isl (txs (signature s))) sigs))"
proof (induction sigs arbitrary: st)
  case Nil
  then show ?case by simp
next
  case (Cons s sigs)
  let ?st1 = "step (st\<lparr>rpc_calls := rpc_calls st @ [GetParsedTransaction conn (signature s)]\<rparr>)"
  note IH = Cons.IH[of ?st1]
  show ?case
  proof (cases "txs (signature s)")
    case (Inl e)
    with static show ?thesis by (simp add: reply_spec Let_def step_def)
  next
    case (Inr tx)
    show ?thesis
    proof (cases "spec_deployment_reply pid (txs (signature s))")
      case True
      with Inr static show ?thesis
        by (auto simp: reply_spec deployment_of_def or0_def Let_def step_def
            split: option.splits)
    next
      case False
      with Inr static have "scanSignatures w conn pid (s # sigs) st =
          scanSignatures w conn pid sigs ?st1"
        by (auto simp: reply_spec Let_def split: option.splits)
      with IH False Inr show ?thesis by (simp add: step_def)
    qed
  qed
qed

lemma first_stop_is_first_match:
  assumes P: "\<And>s. P s = (\<not> M s \<and> \<not> T s)"
  shows "\<forall>s\<in>set (takeWhile P xs @ take 1 (dropWhile P xs)). \<not> T s \<Longrightarrow>
         (case dropWhile P xs of
            [] \<Rightarrow> None
          | s # rest \<Rightarrow> if M s then Some (f s) else None) = map_option f (find M xs)"
proof (induction xs)
  case Nil
  show ?case by simp
next
  case (Cons x xs)
  show ?case
  proof (cases "P x")
    case True
    then have nm: "\<not> M x" using P by blast
    from Cons.prems True
    have "\<forall>s\<in>set (takeWhile P xs @ take 1 (dropWhile P xs)). \<not> T s" by simp
    then have "(case dropWhile P xs of
            [] \<Rightarrow> None
          | s # rest \<Rightarrow> if M s then Some (f s) else None) = map_option f (find M xs)"
      by (rule Cons.IH)
    with True nm show ?thesis by simp
  next
    case False
    with Cons.prems have "\<not> T x" by simp
    with False have "M x" using P by blast
    with False show ?thesis by simp
  qed
qed

lemma first_stop_prefix:
  assumes P: "\<And>s. P s = (\<not> M s \<and> \<not> T s)"
  shows "\<forall>s\<in>set (takeWhile P xs @ take 1 (dropWhile P xs)). \<not> T s \<Longrightarrow>
         takeWhile P xs = takeWhile (\<lambda>s. \<not> M s) xs \<and>
         dropWhile P xs = dropWhile (\<lambda>s. \<not> M s) xs"
proof (induction xs)
  case Nil
  show ?case by simp
next
  case (Cons x xs)
  show ?case
  proof (cases "P x")
    case True
    then have nm: "\<not> M x" using P by blast
    from Cons.prems True
    have "\<forall>s\<in>set (takeWhile P xs @ take 1 (dropWhile P xs)). \<not> T s" by simp
    then have "takeWhile P xs = takeWhile (\<lambda>s. \<not> M s) xs \<and>
         dropWhile P xs = dropWhile (\<lambda>s. \<not> M s) xs"
      by (rule Cons.IH)
    with True nm show ?thesis by simp
  next
    case False
    with Cons.prems have "\<not> T x" by simp
    with False have "M x" using P by blast
    with False show ?thesis by simp
  qed
qed

lemma ex_sorted: "sort_key slot ex_history =
     [\<lparr>signature = ''sig2'', slot = 2, blockTime = Some 1600000200\<rparr>,
      \<lparr>signature = ''sig5'', slot = 5, blockTime = Some 1600000500\<rparr>,
      \<lparr>signature = ''sig9'', slot = 9, blockTime = None\<rparr>]"
  by (simp add: ex_history_def)

lemma ex_unrelated: "\<not> isDeployment ex_pid [''unrelated'']"
  by code_simp

lemma ex_deployed: "isDeployment ex_pid [''Deployed program X'']"
  by code_simp

lemma ex_two_lines:
  "\<not> isDeployment ex_pid [''Program 6EF8rrecthR5Dkzon8Nwu78hRvfCKubJ14M5uBEwF6P invoke [1]'',
                             ''Program log: success'']"
  by code_simp

lemma ex_one_line: "isDeployment ex_pid [''Program 6EF8rrecthR5Dkzon8Nwu78hRvfCKubJ14M5uBEwF6P success'']"
  by code_simp

lemma ex_deploy_id: "isDeployment ex_pid [''Deploy with ID 6EF8rrecthR5Dkzon8Nwu78hRvfCKubJ14M5uBEwF6P'']"
  by code_simp

lemma ex_replies:
  "\<not> spec_deployment_reply ex_pid (ex_tx ''sig2'')"
  "spec_deployment_reply ex_pid (ex_tx ''sig5'')"
  "\<not> spec_deployment_reply ex_pid (ex_tx_unrelated s)"
  "\<not> spec_deployment_reply ex_pid (ex_tx_one_line ''sig2'')"
  "\<not> spec_deployment_reply ex_pid (ex_tx_one_line ''sig5'')"
  "spec_deployment_reply ex_pid (ex_tx_one_line ''sig9'')"
  "spec_deployment_reply ex_pid (ex_tx_deploy_id s)"
  "\<not> spec_deployment_reply ex_pid (ex_tx_throw ''sig2'')"
  "spec_deployment_reply ex_pid (ex_tx_throw ''sig5'')"
  "\<not> spec_deployment_reply ex_pid (ex_tx_throw ''sig9'')"
  by (simp_all add: reply_spec ex_tx_def ex_logs_def ex_tx_one_line_def ex_tx_deploy_id_def
      ex_tx_unrelated_def ex_tx_throw_def tx_logMessages_def ex_unrelated ex_deployed ex_two_lines ex_one_line
      ex_deploy_id)

lemma ex_throws:
  "\<not> isl (ex_tx s)" "\<not> isl (ex_tx_unrelated s)" "\<not> isl (ex_tx_one_line s)"
  "\<not> isl (ex_tx_deploy_id s)" "\<not> isl (ex_tx_throw ''sig2'')"
  "\<not> isl (ex_tx_throw ''sig5'')" "isl (ex_tx_throw ''sig9'')"
  by (simp_all add: ex_tx_def ex_logs_def ex_tx_unrelated_def ex_tx_one_line_def
      ex_tx_deploy_id_def ex_tx_throw_def)

text \<open>
  Claim C4. On a ledger that answers \<^verbatim>\<open>getParsedTransaction\<close> by a fixed function,
  \<open>findDeploymentTransaction\<close> works on the signatures sorted ascending by slot (a
  permutation of the fetched list) and fetches their transactions in that order. It
  passes over a reply without log output and over one whose log lines contain neither a
  deployment marker phrase (``Deployed program'', ``Deploy with ID'') nor a line with both
  the program identifier and ``success''; it stops at the first reply that is classified
  as the deployment, or that throws, and fetches nothing after it. When none of the
  fetches made throws, the transactions fetched are those up to and including the first
  deployment in slot order, and the result is that transaction's signature, slot and
  block time, or nothing when there is no deployment.
\<close>

theorem history_scan_earliest_match:
  assumes "getSignaturesForAddress w (tick st) conn target = Inr sigs"
    and "\<forall>t s. getParsedTransaction w t conn s = txs s"
  shows "(let sorted_sigs = sort_key slot sigs;
              matches = (\<lambda>s. spec_deployment_reply pid (txs (signature s)));
              passed = (\<lambda>s. \<not> matches s \<and> \<not> isl (txs (signature s)));
              fetched = takeWhile passed sorted_sigs @ take 1 (dropWhile passed sorted_sigs);
              found = findDeploymentTransaction w conn target pid st
          in sorted (map slot sorted_sigs) \<and> mset sorted_sigs = mset sigs \<and>
             rpc_calls (snd found) =
               rpc_calls st @ GetSignaturesForAddress conn target #
                 map (\<lambda>s. GetParsedTransaction conn (signature s)) fetched \<and>
             fst found =
               (case dropWhile passed sorted_sigs of
                  [] \<Rightarrow> None
                | s # rest \<Rightarrow> if matches s then Some (deployment_of s) else None) \<and>
             ((\<forall>s\<in>set fetched. \<not> isl (txs (signature s))) \<longrightarrow>
                fetched = takeWhile (\<lambda>s. \<not> matches s) sorted_sigs @
                          take 1 (dropWhile (\<lambda>s. \<not> matches s) sorted_sigs) \<and>
                fst found = map_option deployment_of (find matches sorted_sigs)))"
proof -
  let ?st1 = "step (st\<lparr>rpc_calls := rpc_calls st @ [GetSignaturesForAddress conn target]\<rparr>)"
  let ?sorted = "sort_key slot sigs"
  let ?M = "\<lambda>s. spec_deployment_reply pid (txs (signature s))"
  let ?T = "\<lambda>s. isl (txs (signature s))"
  let ?P = "\<lambda>s. \<not> ?M s \<and> \<not> ?T s"
  let ?fetched = "takeWhile ?P ?sorted @ take 1 (dropWhile ?P ?sorted)"
  let ?found = "findDeploymentTransaction w conn target pid st"
  have eta: "(\<lambda>a. or0 (Some (slot a))) = slot" by (simp add: fun_eq_iff)
  note scan = scanSignatures_static[OF assms(2), of pid ?sorted ?st1]
  have found: "?found = scanSignatures w conn pid ?sorted ?st1"
  proof (cases "sigs = []")
    case True
    with assms(1) show ?thesis by (simp add: findDeploymentTransaction_def Let_def)
  next
    case False
    with assms(1) show ?thesis by (simp add: findDeploymentTransaction_def Let_def eta)
  qed
  have calls: "rpc_calls (snd ?found) =
      rpc_calls st @ GetSignaturesForAddress conn target #
        map (\<lambda>s. GetParsedTransaction conn (signature s)) ?fetched"
    using scan unfolding found by (simp add: step_def)
  have result: "fst ?found =
      (case dropWhile ?P ?sorted of
         [] \<Rightarrow> None
       | s # rest \<Rightarrow> if ?M s then Some (deployment_of s) else None)"
    using scan unfolding found by simp
  have clean: "(\<forall>s\<in>set ?fetched. \<not> ?T s) \<longrightarrow>
      ?fetched = takeWhile (\<lambda>s. \<not> ?M s) ?sorted @ take 1 (dropWhile (\<lambda>s. \<not> ?M s) ?sorted) \<and>
      fst ?found = map_option deployment_of (find ?M ?sorted)"
  proof
    assume nothrow: "\<forall>s\<in>set ?fetched. \<not> ?T s"
    have P: "\<And>s. ?P s = (\<not> ?M s \<and> \<not> ?T s)" by simp
    from first_stop_prefix[of ?P ?M ?T ?sorted, OF P nothrow]
    have "?fetched = takeWhile (\<lambda>s. \<not> ?M s) ?sorted @ take 1 (dropWhile (\<lambda>s. \<not> ?M s) ?sorted)"
      by simp
    moreover from first_stop_is_first_match[of ?P ?M ?T ?sorted deployment_of, OF P nothrow]
    have "fst ?found = map_option deployment_of (find ?M ?sorted)"
      unfolding result by simp
    ultimately show "?fetched = takeWhile (\<lambda>s. \<not> ?M s) ?sorted @
        take 1 (dropWhile (\<lambda>s. \<not> ?M s) ?sorted) \<and>
      fst ?found = map_option deployment_of (find ?M ?sorted)" by blast
  qed
  have perm: "sorted (map slot ?sorted) \<and> mset ?sorted = mset sigs" by simp
  from perm calls result clean show ?thesis unfolding Let_def by blast
qed

theorem history_scan_earliest_match_witness:
  "getSignaturesForAddress ex_ledger (tick ex_sys) ''http://main-endpoint.test'' ex_pid = Inr ex_history \<and>
   map slot ex_history = [5, 2, 9] \<and>
   fst (findDeploymentTransaction ex_ledger ''http://main-endpoint.test'' ex_pid ex_pid ex_sys) =
     Some \<lparr>d_signature = ''sig5'', d_slot = 5, d_timestamp = 1600000500,
           d_programDataAccount = None\<rparr> \<and>
   rpc_calls (snd (findDeploymentTransaction ex_ledger ''http://main-endpoint.test'' ex_pid ex_pid ex_sys)) =
     [GetSignaturesForAddress ''http://main-endpoint.test'' ex_pid,
      GetParsedTransaction ''http://main-endpoint.test'' ''sig2'',
      GetParsedTransaction ''http://main-endpoint.test'' ''sig5''] \<and>
   fst (findDeploymentTransaction ex_unmatched ''http://main-endpoint.test'' ex_pid ex_pid ex_sys) =
     None \<and>
   rpc_calls (snd (findDeploymentTransaction ex_unmatched ''http://main-endpoint.test'' ex_pid ex_pid ex_sys)) =
     [GetSignaturesForAddress ''http://main-endpoint.test'' ex_pid,
      GetParsedTransaction ''http://main-endpoint.test'' ''sig2'',
      GetParsedTransaction ''http://main-endpoint.test'' ''sig5'',
      GetParsedTransaction ''http://main-endpoint.test'' ''sig9''] \<and>
   fst (findDeploymentTransaction (ex_ledger_with ex_tx_one_line) ''http://main-endpoint.test'' ex_pid ex_pid ex_sys) =
     Some \<lparr>d_signature = ''sig9'', d_slot = 9, d_timestamp = 0, d_programDataAccount = None\<rparr> \<and>
   rpc_calls (snd (findDeploymentTransaction (ex_ledger_with ex_tx_one_line) ''http://main-endpoint.test'' ex_pid ex_pid ex_sys)) =
     [GetSignaturesForAddress ''http://main-endpoint.test'' ex_pid,
      GetParsedTransaction ''http://main-endpoint.test'' ''sig2'',
      GetParsedTransaction ''http://main-endpoint.test'' ''sig5'',
      GetParsedTransaction ''http://main-endpoint.test'' ''sig9''] \<and>
   fst (findDeploymentTransaction (ex_ledger_with ex_tx_deploy_id) ''http://main-endpoint.test'' ex_pid ex_pid ex_sys) =
     Some \<lparr>d_signature = ''sig2'', d_slot = 2, d_timestamp = 1600000200,
           d_programDataAccount = None\<rparr> \<and>
   rpc_calls (snd (findDeploymentTransaction (ex_ledger_with ex_tx_deploy_id) ''http://main-endpoint.test'' ex_pid ex_pid ex_sys)) =
     [GetSignaturesForAddress ''http://main-endpoint.test'' ex_pid,
      GetParsedTransaction ''http://main-endpoint.test'' ''sig2''] \<and>
   fst (findDeploymentTransaction (ex_ledger_with ex_tx_throw) ''http://main-endpoint.test'' ex_pid ex_pid ex_sys) =
     Some \<lparr>d_signature = ''sig5'', d_slot = 5, d_timestamp = 1600000500,
           d_programDataAccount = None\<rparr> \<and>
   rpc_calls (snd (findDeploymentTransaction (ex_ledger_with ex_tx_throw) ''http://main-endpoint.test'' ex_pid ex_pid ex_sys)) =
     [GetSignaturesForAddress ''http://main-endpoint.test'' ex_pid,
      GetParsedTransaction ''http://main-endpoint.test'' ''sig2'',
      GetParsedTransaction ''http://main-endpoint.test'' ''sig5'']"
proof -
  let ?c = "''http://main-endpoint.test''"
  let ?sorted = "[\<lparr>signature = ''sig2'', slot = 2, blockTime = Some 1600000200\<rparr>,
                  \<lparr>signature = ''sig5'', slot = 5, blockTime = Some 1600000500\<rparr>,
                  \<lparr>signature = ''sig9'', slot = 9, blockTime = None\<rparr>]"
  have sigs: "\<And>f. getSignaturesForAddress (ex_ledger_with f) (tick ex_sys) ?c ex_pid = Inr ex_history"
    "getSignaturesForAddress ex_ledger (tick ex_sys) ?c ex_pid = Inr ex_history"
    "getSignaturesForAddress ex_unmatched (tick ex_sys) ?c ex_pid = Inr ex_history"
    by (simp_all add: ex_ledger_with_def ex_unmatched_def ex_ledger_def)
  have txs: "\<And>f. \<forall>t s. getParsedTransaction (ex_ledger_with f) t ?c s = f s"
    "\<forall>t s. getParsedTransaction ex_ledger t ?c s = ex_tx s"
    "\<forall>t s. getParsedTransaction ex_unmatched t ?c s = ex_tx_unrelated s"
    by (simp_all add: ex_ledger_with_def ex_unmatched_def ex_ledger_def ex_logs_def
        ex_tx_unrelated_def)
  have slots: "map slot ex_history = [5, 2, 9]" by (simp add: ex_history_def)
  have none: "rpc_calls ex_sys = []" by (simp add: ex_sys_def)
  note replies = ex_replies ex_throws
  let ?passed_ex_tx = "\<lambda>s. \<not> spec_deployment_reply ex_pid (ex_tx (signature s)) \<and>
      \<not> isl (ex_tx (signature s))"
  let ?passed_ex_tx_deploy_id = "\<lambda>s. \<not> spec_deployment_reply ex_pid (ex_tx_deploy_id (signature s)) \<and>
      \<not> isl (ex_tx_deploy_id (signature s))"
  let ?passed_ex_tx_one_line = "\<lambda>s. \<not> spec_deployment_reply ex_pid (ex_tx_one_line (signature s)) \<and>
      \<not> isl (ex_tx_one_line (signature s))"
  let ?passed_ex_tx_throw = "\<lambda>s. \<not> spec_deployment_reply ex_pid (ex_tx_throw (signature s)) \<and>
      \<not> isl (ex_tx_throw (signature s))"
  let ?passed_ex_tx_unrelated = "\<lambda>s. \<not> spec_deployment_reply ex_pid (ex_tx_unrelated (signature s)) \<and>
      \<not> isl (ex_tx_unrelated (signature s))"
  note matched = history_scan_earliest_match[where txs = ex_tx and pid = ex_pid,
      OF sigs(2) txs(2), unfolded Let_def ex_sorted]
  have matched_calls: "rpc_calls (snd (findDeploymentTransaction ex_ledger ''http://main-endpoint.test'' ex_pid ex_pid ex_sys)) =
     [GetSignaturesForAddress ''http://main-endpoint.test'' ex_pid,
      GetParsedTransaction ''http://main-endpoint.test'' ''sig2'',
      GetParsedTransaction ''http://main-endpoint.test'' ''sig5'']"
    using matched[THEN conjunct2, THEN conjunct2, THEN conjunct1] by (simp add: replies none)
  have "\<forall>s\<in>set (takeWhile ?passed_ex_tx ?sorted @
                   take 1 (dropWhile ?passed_ex_tx ?sorted)).
          \<not> isl (ex_tx (signature s))"
    by (simp add: replies)
  from matched[THEN conjunct2, THEN conjunct2, THEN conjunct2, THEN conjunct2, THEN mp, OF this]
  have matched_result: "fst (findDeploymentTransaction ex_ledger ''http://main-endpoint.test'' ex_pid ex_pid ex_sys) =
     Some \<lparr>d_signature = ''sig5'', d_slot = 5, d_timestamp = 1600000500,
           d_programDataAccount = None\<rparr>"
    by (simp add: replies deployment_of_def)
  note unmatched = history_scan_earliest_match[where txs = ex_tx_unrelated and pid = ex_pid,
      OF sigs(3) txs(3), unfolded Let_def ex_sorted]
  have unmatched_calls: "rpc_calls (snd (findDeploymentTransaction ex_unmatched ''http://main-endpoint.test'' ex_pid ex_pid ex_sys)) =
     [GetSignaturesForAddress ''http://main-endpoint.test'' ex_pid,
      GetParsedTransaction ''http://main-endpoint.test'' ''sig2'',
      GetParsedTransaction ''http://main-endpoint.test'' ''sig5'',
      GetParsedTransaction ''http://main-endpoint.test'' ''sig9'']"
    using unmatched[THEN conjunct2, THEN conjunct2, THEN conjunct1] by (simp add: replies none)
  have "\<forall>s\<in>set (takeWhile ?passed_ex_tx_unrelated ?sorted @
                   take 1 (dropWhile ?passed_ex_tx_unrelated ?sorted)).
          \<not> isl (ex_tx_unrelated (signature s))"
    by (simp add: replies)
  from unmatched[THEN conjunct2, THEN conjunct2, THEN conjunct2, THEN conjunct2, THEN mp, OF this]
  have unmatched_result: "fst (findDeploymentTransaction ex_unmatched ''http://main-endpoint.test'' ex_pid ex_pid ex_sys) =
     None"
    by (simp add: replies deployment_of_def)
  note one_line = history_scan_earliest_match[where txs = ex_tx_one_line and pid = ex_pid,
      OF sigs(1) txs(1), unfolded Let_def ex_sorted]
  have one_line_calls: "rpc_calls (snd (findDeploymentTransaction (ex_ledger_with ex_tx_one_line) ''http://main-endpoint.test'' ex_pid ex_pid ex_sys)) =
     [GetSignaturesForAddress ''http://main-endpoint.test'' ex_pid,
      GetParsedTransaction ''http://main-endpoint.test'' ''sig2'',
      GetParsedTransaction ''http://main-endpoint.test'' ''sig5'',
      GetParsedTransaction ''http://main-endpoint.test'' ''sig9'']"
    using one_line[THEN conjunct2, THEN conjunct2, THEN conjunct1] by (simp add: replies none)
  have "\<forall>s\<in>set (takeWhile ?passed_ex_tx_one_line ?sorted @
                   take 1 (dropWhile ?passed_ex_tx_one_line ?sorted)).
          \<not> isl (ex_tx_one_line (signature s))"
    by (simp add: replies)
  from one_line[THEN conjunct2, THEN conjunct2, THEN conjunct2, THEN conjunct2, THEN mp, OF this]
  have one_line_result: "fst (findDeploymentTransaction (ex_ledger_with ex_tx_one_line) ''http://main-endpoint.test'' ex_pid ex_pid ex_sys) =
     Some \<lparr>d_signature = ''sig9'', d_slot = 9, d_timestamp = 0, d_programDataAccount = None\<rparr>"
    by (simp add: replies deployment_of_def)
  note deploy_id = history_scan_earliest_match[where txs = ex_tx_deploy_id and pid = ex_pid,
      OF sigs(1) txs(1), unfolded Let_def ex_sorted]
  have deploy_id_calls: "rpc_calls (snd (findDeploymentTransaction (ex_ledger_with ex_tx_deploy_id) ''http://main-endpoint.test'' ex_pid ex_pid ex_sys)) =
     [GetSignaturesForAddress ''http://main-endpoint.test'' ex_pid,
      GetParsedTransaction ''http://main-endpoint.test'' ''sig2'']"
    using deploy_id[THEN conjunct2, THEN conjunct2, THEN conjunct1] by (simp add: replies none)
  have "\<forall>s\<in>set (takeWhile ?passed_ex_tx_deploy_id ?sorted @
                   take 1 (dropWhile ?passed_ex_tx_deploy_id ?sorted)).
          \<not> isl (ex_tx_deploy_id (signature s))"
    by (simp add: replies)
  from deploy_id[THEN conjunct2, THEN conjunct2, THEN conjunct2, THEN conjunct2, THEN mp, OF this]
  have deploy_id_result: "fst (findDeploymentTransaction (ex_ledger_with ex_tx_deploy_id) ''http://main-endpoint.test'' ex_pid ex_pid ex_sys) =
     Some \<lparr>d_signature = ''sig2'', d_slot = 2, d_timestamp = 1600000200,
           d_programDataAccount = None\<rparr>"
    by (simp add: replies deployment_of_def)
  note thrown = history_scan_earliest_match[where txs = ex_tx_throw and pid = ex_pid,
      OF sigs(1) txs(1), unfolded Let_def ex_sorted]
  have thrown_calls: "rpc_calls (snd (findDeploymentTransaction (ex_ledger_with ex_tx_throw) ''http://main-endpoint.test'' ex_pid ex_pid ex_sys)) =
     [GetSignaturesForAddress ''http://main-endpoint.test'' ex_pid,
      GetParsedTransaction ''http://main-endpoint.test'' ''sig2'',
      GetParsedTransaction ''http://main-endpoint.test'' ''sig5'']"
    using thrown[THEN conjunct2, THEN conjunct2, THEN conjunct1] by (simp add: replies none)
  have "\<forall>s\<in>set (takeWhile ?passed_ex_tx_throw ?sorted @
                   take 1 (dropWhile ?passed_ex_tx_throw ?sorted)).
          \<not> isl (ex_tx_throw (signature s))"
    by (simp add: replies)
  from thrown[THEN conjunct2, THEN conjunct2, THEN conjunct2, THEN conjunct2, THEN mp, OF this]
  have thrown_result: "fst (findDeploymentTransaction (ex_ledger_with ex_tx_throw) ''http://main-endpoint.test'' ex_pid ex_pid ex_sys) =
     Some \<lparr>d_signature = ''sig5'', d_slot = 5, d_timestamp = 1600000500,
           d_programDataAccount = None\<rparr>"
    by (simp add: replies deployment_of_def)
  from sigs(2) slots matched_result matched_calls unmatched_result unmatched_calls
    one_line_result one_line_calls deploy_id_result deploy_id_calls thrown_result thrown_calls
  show ?thesis by (intro conjI)
qed

section \<open>Detection over the network\<close>

lemmas ex_defs = ex_world_def ex_sys_def ex_primary_def ex_backup_def ex_ledger_def
  ex_unmatched_def ex_empty_history_def ex_wallet_def

lemmas run_defs = getDeploymentInfo_def getCachedDeployment_def attempt_def
  getNextHealthyConnection_def updateEndpointHealth_eq probe_ok_def step_def
  healthCheckInterval_def PublicKey_def maxAttempts_def captured_def Let_def
  findDeploymentTransaction_def isProgramAccount_def BPF_LOADER_PROGRAMS_def truthy_def

lemma ex_empty_run:
  "fst (getDeploymentInfo ex_empty_history ex_pid ex_sys) = Inl DeploymentNotFound"
  by (simp add: ex_defs run_defs ex_pid_not_native DeploymentNotFound_def)

lemma ex_unmatched_run:
  "fst (getDeploymentInfo ex_unmatched ex_pid ex_sys) = Inl DeploymentNotFound"
  by (simp add: ex_defs run_defs ex_pid_not_native DeploymentNotFound_def
      ex_history_def tx_logMessages_def ex_unrelated)

subsection \<open>An empty history\<close>

text \<open>
  Claim C3, as the specification states it, fails: on an account without any transaction
  and on an account whose whole history is scanned without a match, \<open>getDeploymentInfo\<close>
  fails with the same error, \<open>DeploymentNotFound\<close>. Neither \<open>findDeploymentTransaction\<close>
  nor \<open>getDeploymentInfo\<close> has an error of its own for an empty history.
\<close>

theorem empty_history_error_not_distinguished:
  "getSignaturesForAddress ex_empty_history 2 ''http://main-endpoint.test'' ex_pid = Inr [] \<and>
   getSignaturesForAddress ex_unmatched 2 ''http://main-endpoint.test'' ex_pid = Inr ex_history \<and>
   fst (getDeploymentInfo ex_empty_history ex_pid ex_sys) = Inl DeploymentNotFound \<and>
   fst (getDeploymentInfo ex_unmatched ex_pid ex_sys) = Inl DeploymentNotFound"
  by (simp add: ex_empty_run ex_unmatched_run)
     (simp add: ex_empty_history_def ex_unmatched_def ex_ledger_def)

text \<open>
  Claim C3, amended. In an attempt that has acquired a connection, found the account and
  found it owned by a loader: when the fetched signature list is empty,
  \<open>findDeploymentTransaction\<close> returns nothing; and whenever it returns nothing (an empty
  list, a scan without a match, or an exception that it caught), the attempt fails with
  \<open>DeploymentNotFound\<close>, whose message is ``Could not find deployment transaction''.
\<close>

theorem empty_history_fails_with_DeploymentNotFound:
  assumes acquire: "getNextHealthyConnection w st = (Inr conn, st1)"
    and key: "isPublicKey w pid"
    and account: "getParsedAccountInfo w (tick st1) conn pid = Inr (Some acc)"
    and loader: "isProgramAccount (owner acc)"
    and target: "target = (if truthy (programData acc) then the (programData acc) else pid)"
    and tkey: "isPublicKey w target"
    and st2: "st2 = step (st1\<lparr>rpc_calls := rpc_calls st1 @ [GetParsedAccountInfo conn pid]\<rparr>)"
  shows "(getSignaturesForAddress w (tick st2) conn target = Inr [] \<longrightarrow>
            fst (findDeploymentTransaction w conn target pid st2) = None)
       \<and> (fst (findDeploymentTransaction w conn target pid st2) = None \<longrightarrow>
            fst (attempt w pid st) = Inl DeploymentNotFound)"
proof (intro conjI impI)
  assume "getSignaturesForAddress w (tick st2) conn target = Inr []"
  then show "fst (findDeploymentTransaction w conn target pid st2) = None"
    by (simp add: findDeploymentTransaction_def Let_def)
next
  assume none: "fst (findDeploymentTransaction w conn target pid st2) = None"
  then obtain st3 where scan: "findDeploymentTransaction w conn target pid st2 = (None, st3)"
    by (cases "findDeploymentTransaction w conn target pid st2") simp
  show "fst (attempt w pid st) = Inl DeploymentNotFound"
  proof (cases "truthy (programData acc)")
    case True
    with target have t: "target = the (programData acc)" by simp
    from acquire key account loader True tkey[unfolded t] scan[unfolded t st2]
    show ?thesis by (simp add: attempt_def PublicKey_def Let_def)
  next
    case False
    with target have t: "target = pid" by simp
    from acquire key account loader False scan[unfolded t st2]
    show ?thesis by (simp add: attempt_def PublicKey_def Let_def)
  qed
qed

theorem empty_history_fails_with_DeploymentNotFound_witness:
  "fst (getNextHealthyConnection ex_empty_history ex_sys) = Inr ''http://main-endpoint.test'' \<and>
   isPublicKey ex_empty_history ex_pid \<and>
   getParsedAccountInfo ex_empty_history 2 ''http://main-endpoint.test'' ex_pid =
     Inr (Some \<lparr>owner = ''BPFLoader2111111111111111111111111111111111'', programData = None\<rparr>) \<and>
   isProgramAccount ''BPFLoader2111111111111111111111111111111111'' \<and>
   getSignaturesForAddress ex_empty_history 3 ''http://main-endpoint.test'' ex_pid = Inr [] \<and>
   fst (attempt ex_empty_history ex_pid ex_sys) = Inl DeploymentNotFound"
proof -
  let ?c = "''http://main-endpoint.test''"
  let ?acc = "\<lparr>owner = ''BPFLoader2111111111111111111111111111111111'', programData = None\<rparr>"
  let ?s1 = "snd (getNextHealthyConnection ex_empty_history ex_sys)"
  let ?s2 = "step (?s1\<lparr>rpc_calls := rpc_calls ?s1 @ [GetParsedAccountInfo ?c ex_pid]\<rparr>)"
  have res: "fst (getNextHealthyConnection ex_empty_history ex_sys) = Inr ?c"
    by (simp add: ex_defs run_defs)
  then have h1: "getNextHealthyConnection ex_empty_history ex_sys = (Inr ?c, ?s1)"
    by (simp add: prod_eq_iff)
  have t1: "tick ?s1 = 2" by (simp add: ex_defs run_defs)
  have h2: "isPublicKey ex_empty_history ex_pid" by (simp add: ex_defs)
  have h3: "getParsedAccountInfo ex_empty_history (tick ?s1) ?c ex_pid = Inr (Some ?acc)"
    by (simp add: ex_empty_history_def ex_ledger_def)
  have h4: "isProgramAccount (owner ?acc)"
    by (simp add: isProgramAccount_def BPF_LOADER_PROGRAMS_def)
  have h5: "ex_pid = (if truthy (programData ?acc) then the (programData ?acc) else ex_pid)"
    by (simp add: truthy_def)
  have h6: "getSignaturesForAddress ex_empty_history (tick ?s2) ?c ex_pid = Inr []"
    by (simp add: ex_empty_history_def ex_ledger_def)
  from empty_history_fails_with_DeploymentNotFound[OF h1 h2 h3 h4 h5 h2 refl] h6
  have "fst (attempt ex_empty_history ex_pid ex_sys) = Inl DeploymentNotFound" by blast
  moreover have "getParsedAccountInfo ex_empty_history 2 ?c ex_pid = Inr (Some ?acc)"
    and "getSignaturesForAddress ex_empty_history 3 ?c ex_pid = Inr []"
    by (simp_all add: ex_empty_history_def ex_ledger_def)
  ultimately show ?thesis using res h2 h4 by simp
qed

subsection \<open>The retry loop\<close>

lemma update_fetches [simp]:
  "account_fetches (updateEndpointHealth w i st) = account_fetches st"
  by (simp add: updateEndpointHealth_eq account_fetches_def is_account_fetch_def step_def)

lemma nextLoop_fetches:
  "account_fetches (snd (nextLoop w tried st)) = account_fetches st"
proof (induction w tried st rule: nextLoop.induct)
  case (1 w tried st)
  let ?i = "currentEndpointIndex st"
  let ?st1 = "updateEndpointHealth w ?i st"
  let ?st2 = "?st1\<lparr>currentEndpointIndex := (?i + 1) mod length (endpoints ?st1)\<rparr>"
  show ?case
  proof (cases "tried < length (endpoints st) \<and> ?i < length (endpoints st) \<and>
                \<not> isHealthy (endpoints ?st1 ! ?i)")
    case True
    then have "nextLoop w tried st = nextLoop w (tried + 1) ?st2" by (simp add: Let_def)
    moreover from True "1.IH"[OF _ refl _ refl] have
      "account_fetches (snd (nextLoop w (tried + 1) ?st2)) = account_fetches ?st2" by simp
    moreover have "account_fetches ?st2 = account_fetches ?st1" by (simp add: account_fetches_def)
    ultimately show ?thesis by simp
  next
    case False
    then show ?thesis by (auto simp: Let_def)
  qed
qed

lemma scan_fetches:
  "account_fetches (snd (scanSignatures w conn pid sigs st)) = account_fetches st"
proof (induction sigs arbitrary: st)
  case Nil
  then show ?case by simp
next
  case (Cons s sigs)
  let ?st1 = "step (st\<lparr>rpc_calls := rpc_calls st @ [GetParsedTransaction conn (signature s)]\<rparr>)"
  have one: "account_fetches ?st1 = account_fetches st"
    by (simp add: account_fetches_def is_account_fetch_def step_def)
  from Cons.IH[of ?st1] one show ?case
    by (simp add: Let_def split: sum.splits option.splits)
qed

lemma find_fetches:
  "account_fetches (snd (findDeploymentTransaction w conn target pid st)) = account_fetches st"
proof -
  let ?st1 = "step (st\<lparr>rpc_calls := rpc_calls st @ [GetSignaturesForAddress conn target]\<rparr>)"
  have one: "account_fetches ?st1 = account_fetches st"
    by (simp add: account_fetches_def is_account_fetch_def step_def)
  with scan_fetches[of w conn pid _ ?st1] show ?thesis
    by (simp add: findDeploymentTransaction_def Let_def split: sum.splits)
qed

lemma saveCache_rpc_calls [simp]: "rpc_calls (saveCache w st) = rpc_calls st"
  by (simp add: saveCache_def mkdirSync_def writeFileSync_def step_def)

lemma saveCache_cache [simp]: "cache (saveCache w st) = cache st"
  by (simp add: saveCache_def mkdirSync_def writeFileSync_def step_def)

lemma cacheDeployment_fetches:
  "account_fetches (cacheDeployment w pid a b c d e st) = account_fetches st"
  by (simp add: cacheDeployment_def account_fetches_def Let_def step_def)

lemma getCached_fetches:
  "account_fetches (snd (getCachedDeployment w pid st)) = account_fetches st"
  by (simp add: getCachedDeployment_def account_fetches_def Let_def step_def split: option.splits)

lemma attempt_fetches:
  "account_fetches (snd (attempt w pid st)) \<le> account_fetches st + 1"
proof -
  obtain r1 st1 where acq: "getNextHealthyConnection w st = (r1, st1)"
    by (cases "getNextHealthyConnection w st")
  with nextLoop_fetches[of w 0 st] have f1: "account_fetches st1 = account_fetches st"
    by (simp add: getNextHealthyConnection_def)
  show ?thesis
  proof (cases r1)
    case (Inl e)
    with acq f1 show ?thesis by (simp add: attempt_def)
  next
    case (Inr conn)
    let ?st2 = "step (st1\<lparr>rpc_calls := rpc_calls st1 @ [GetParsedAccountInfo conn pid]\<rparr>)"
    have f2: "account_fetches ?st2 = account_fetches st + 1"
      using f1 by (simp add: account_fetches_def is_account_fetch_def step_def)
    have f3: "\<And>target r st3. findDeploymentTransaction w conn target pid ?st2 = (r, st3) \<Longrightarrow>
        account_fetches st3 = account_fetches st + 1"
    proof -
      fix target r st3
      assume "findDeploymentTransaction w conn target pid ?st2 = (r, st3)"
      with find_fetches[of w conn target pid ?st2] f2 show "account_fetches st3 = account_fetches st + 1"
        by simp
    qed
    from acq Inr f1 f2 f3 show ?thesis
      by (auto simp: attempt_def PublicKey_def Let_def cacheDeployment_fetches
          split: sum.splits option.splits prod.splits if_splits dest!: f3)
  qed
qed


lemma attempt_fetches_pair:
  "attempt w pid st = (r, st') \<Longrightarrow> account_fetches st' \<le> account_fetches st + 1"
  using attempt_fetches[of w pid st] by simp

lemma saveCache_cache_calls [simp]: "cache_calls (saveCache w st) = cache_calls st"
  by (simp add: saveCache_def mkdirSync_def writeFileSync_def step_def)

lemma cacheDeployment_effect:
  "rpc_calls (cacheDeployment w pid a b c d e st) = rpc_calls st \<and>
   cache_calls (cacheDeployment w pid a b c d e st) = cache_calls st @ [CacheDeployment pid] \<and>
   map_of (cache (cacheDeployment w pid a b c d e st)) pid =
     Some \<lparr>programId = pid, deploymentSignature = a, deploymentSlot = b,
           deploymentTimestamp = c, lastChecked = now w (tick st), isProgramData = d,
           programDataAccount = e\<rparr>"
  by (simp add: cacheDeployment_def Let_def step_def update_conv')

lemma attempt_acquire_fails:
  "getNextHealthyConnection w s = (Inl e, s1) \<longrightarrow> attempt w pid s = (Inl e, s1)"
  by (simp add: attempt_def)

lemma attempt_redoes:
  "getNextHealthyConnection w s = (Inr conn, s1) \<and> isPublicKey w pid \<longrightarrow>
     (let s2 = step (s1\<lparr>rpc_calls := rpc_calls s1 @ [GetParsedAccountInfo conn pid]\<rparr>);
          reply = getParsedAccountInfo w (tick s1) conn pid
      in (\<forall>e. reply = Inl e \<longrightarrow> attempt w pid s = (Inl e, s2)) \<and>
         (reply = Inr None \<longrightarrow> attempt w pid s = (Inl AccountNotFound, s2)) \<and>
         (\<forall>acc. reply = Inr (Some acc) \<and> owner acc \<notin> set BPF_LOADER_PROGRAMS \<longrightarrow>
                attempt w pid s = (Inl NotAProgramAccount, s2)) \<and>
         (\<forall>acc. reply = Inr (Some acc) \<and> owner acc \<in> set BPF_LOADER_PROGRAMS \<longrightarrow>
            (let upgradeable = (programData acc \<noteq> None \<and> programData acc \<noteq> Some []);
                 target = (if upgradeable then the (programData acc) else pid);
                 found = findDeploymentTransaction w conn target pid s2;
                 final = snd (attempt w pid s)
             in (\<not> isPublicKey w target \<longrightarrow>
                   attempt w pid s = (Inl (publicKeyError w target), s2)) \<and>
                (isPublicKey w target \<and> fst found = None \<longrightarrow>
                   attempt w pid s = (Inl DeploymentNotFound, snd found)) \<and>
                (\<forall>d. isPublicKey w target \<and> fst found = Some d \<longrightarrow>
                   fst (attempt w pid s) = Inr d \<and>
                   rpc_calls final = rpc_calls (snd found) \<and>
                   cache_calls final = cache_calls (snd found) @ [CacheDeployment pid] \<and>
                   map_of (cache final) pid =
                     Some \<lparr>programId = pid, deploymentSignature = d_signature d,
                           deploymentSlot = d_slot d, deploymentTimestamp = d_timestamp d,
                           lastChecked = now w (tick (snd found)),
                           isProgramData = upgradeable,
                           programDataAccount = programData acc\<rparr>))))"
proof (intro impI, elim conjE)
  assume acq: "getNextHealthyConnection w s = (Inr conn, s1)" and key: "isPublicKey w pid"
  let ?s2 = "step (s1\<lparr>rpc_calls := rpc_calls s1 @ [GetParsedAccountInfo conn pid]\<rparr>)"
  let ?reply = "getParsedAccountInfo w (tick s1) conn pid"
  have throw: "\<forall>e. ?reply = Inl e \<longrightarrow> attempt w pid s = (Inl e, ?s2)"
    using acq key by (simp add: attempt_def PublicKey_def Let_def)
  have absent: "?reply = Inr None \<longrightarrow> attempt w pid s = (Inl AccountNotFound, ?s2)"
    using acq key by (simp add: attempt_def PublicKey_def Let_def)
  have wallet: "\<forall>acc. ?reply = Inr (Some acc) \<and> owner acc \<notin> set BPF_LOADER_PROGRAMS \<longrightarrow>
      attempt w pid s = (Inl NotAProgramAccount, ?s2)"
    using acq key by (simp add: attempt_def PublicKey_def Let_def isProgramAccount_def)
  have program: "\<forall>acc. ?reply = Inr (Some acc) \<and> owner acc \<in> set BPF_LOADER_PROGRAMS \<longrightarrow>
            (let upgradeable = (programData acc \<noteq> None \<and> programData acc \<noteq> Some []);
                 target = (if upgradeable then the (programData acc) else pid);
                 found = findDeploymentTransaction w conn target pid ?s2;
                 final = snd (attempt w pid s)
             in (\<not> isPublicKey w target \<longrightarrow>
                   attempt w pid s = (Inl (publicKeyError w target), ?s2)) \<and>
                (isPublicKey w target \<and> fst found = None \<longrightarrow>
                   attempt w pid s = (Inl DeploymentNotFound, snd found)) \<and>
                (\<forall>d. isPublicKey w target \<and> fst found = Some d \<longrightarrow>
                   fst (attempt w pid s) = Inr d \<and>
                   rpc_calls final = rpc_calls (snd found) \<and>
                   cache_calls final = cache_calls (snd found) @ [CacheDeployment pid] \<and>
                   map_of (cache final) pid =
                     Some \<lparr>programId = pid, deploymentSignature = d_signature d,
                           deploymentSlot = d_slot d, deploymentTimestamp = d_timestamp d,
                           lastChecked = now w (tick (snd found)),
                           isProgramData = upgradeable,
                           programDataAccount = programData acc\<rparr>))"
  proof (intro allI impI, elim conjE)
    fix acc
    assume reply: "?reply = Inr (Some acc)" and loader: "owner acc \<in> set BPF_LOADER_PROGRAMS"
    let ?up = "programData acc \<noteq> None \<and> programData acc \<noteq> Some []"
    let ?target = "if ?up then the (programData acc) else pid"
    let ?found = "findDeploymentTransaction w conn ?target pid ?s2"
    have up: "truthy (programData acc) = ?up"
      by (cases "programData acc") (simp_all add: truthy_def)
    let ?t = "if truthy (programData acc) then the (programData acc) else pid"
    have tgt: "?target = ?t" by (simp add: up)
    have unfolded: "attempt w pid s =
        (case PublicKey w ?t of
           Inl e \<Rightarrow> (Inl e, ?s2)
         | Inr t \<Rightarrow>
             (case findDeploymentTransaction w conn t pid ?s2 of
                (None, s3) \<Rightarrow> (Inl DeploymentNotFound, s3)
              | (Some d, s3) \<Rightarrow>
                  (Inr d, cacheDeployment w pid (d_signature d) (d_slot d) (d_timestamp d)
                            (truthy (programData acc)) (programData acc) s3)))"
      using acq key reply loader
      by (simp add: attempt_def PublicKey_def Let_def isProgramAccount_def)
    have bad: "\<not> isPublicKey w ?target \<longrightarrow>
        attempt w pid s = (Inl (publicKeyError w ?target), ?s2)"
      unfolding unfolded tgt by (simp add: PublicKey_def)
    have none: "isPublicKey w ?target \<and> fst ?found = None \<longrightarrow>
        attempt w pid s = (Inl DeploymentNotFound, snd ?found)"
      unfolding unfolded tgt
      by (cases "findDeploymentTransaction w conn ?t pid ?s2") (simp add: PublicKey_def)
    have some: "\<forall>d. isPublicKey w ?target \<and> fst ?found = Some d \<longrightarrow>
        fst (attempt w pid s) = Inr d \<and>
        rpc_calls (snd (attempt w pid s)) = rpc_calls (snd ?found) \<and>
        cache_calls (snd (attempt w pid s)) = cache_calls (snd ?found) @ [CacheDeployment pid] \<and>
        map_of (cache (snd (attempt w pid s))) pid =
          Some \<lparr>programId = pid, deploymentSignature = d_signature d,
                deploymentSlot = d_slot d, deploymentTimestamp = d_timestamp d,
                lastChecked = now w (tick (snd ?found)),
                isProgramData = ?up,
                programDataAccount = programData acc\<rparr>"
      unfolding unfolded tgt
      by (cases "findDeploymentTransaction w conn ?t pid ?s2")
         (simp add: PublicKey_def cacheDeployment_effect up)
    from bad none some show "let upgradeable = ?up;
                 target = (if upgradeable then the (programData acc) else pid);
                 found = findDeploymentTransaction w conn target pid ?s2;
                 final = snd (attempt w pid s)
             in (\<not> isPublicKey w target \<longrightarrow>
                   attempt w pid s = (Inl (publicKeyError w target), ?s2)) \<and>
                (isPublicKey w target \<and> fst found = None \<longrightarrow>
                   attempt w pid s = (Inl DeploymentNotFound, snd found)) \<and>
                (\<forall>d. isPublicKey w target \<and> fst found = Some d \<longrightarrow>
                   fst (attempt w pid s) = Inr d \<and>
                   rpc_calls final = rpc_calls (snd found) \<and>
                   cache_calls final = cache_calls (snd found) @ [CacheDeployment pid] \<and>
                   map_of (cache final) pid =
                     Some \<lparr>programId = pid, deploymentSignature = d_signature d,
                           deploymentSlot = d_slot d, deploymentTimestamp = d_timestamp d,
                           lastChecked = now w (tick (snd found)),
                           isProgramData = upgradeable,
                           programDataAccount = programData acc\<rparr>)"
      unfolding Let_def by (intro conjI)
  qed
  from throw absent wallet program
  show "let s2 = ?s2; reply = ?reply
      in (\<forall>e. reply = Inl e \<longrightarrow> attempt w pid s = (Inl e, s2)) \<and>
         (reply = Inr None \<longrightarrow> attempt w pid s = (Inl AccountNotFound, s2)) \<and>
         (\<forall>acc. reply = Inr (Some acc) \<and> owner acc \<notin> set BPF_LOADER_PROGRAMS \<longrightarrow>
                attempt w pid s = (Inl NotAProgramAccount, s2)) \<and>
         (\<forall>acc. reply = Inr (Some acc) \<and> owner acc \<in> set BPF_LOADER_PROGRAMS \<longrightarrow>
            (let upgradeable = (programData acc \<noteq> None \<and> programData acc \<noteq> Some []);
                 target = (if upgradeable then the (programData acc) else pid);
                 found = findDeploymentTransaction w conn target pid s2;
                 final = snd (attempt w pid s)
             in (\<not> isPublicKey w target \<longrightarrow>
                   attempt w pid s = (Inl (publicKeyError w target), s2)) \<and>
                (isPublicKey w target \<and> fst found = None \<longrightarrow>
                   attempt w pid s = (Inl DeploymentNotFound, snd found)) \<and>
                (\<forall>d. isPublicKey w target \<and> fst found = Some d \<longrightarrow>
                   fst (attempt w pid s) = Inr d \<and>
                   rpc_calls final = rpc_calls (snd found) \<and>
                   cache_calls final = cache_calls (snd found) @ [CacheDeployment pid] \<and>
                   map_of (cache final) pid =
                     Some \<lparr>programId = pid, deploymentSignature = d_signature d,
                           deploymentSlot = d_slot d, deploymentTimestamp = d_timestamp d,
                           lastChecked = now w (tick (snd found)),
                           isProgramData = upgradeable,
                           programDataAccount = programData acc\<rparr>)))"
    unfolding Let_def by (intro conjI)
qed

lemmas eval_defs = getNextHealthyConnection_def updateEndpointHealth_eq probe_ok_def step_def
  healthCheckInterval_def Let_def findDeploymentTransaction_def BPF_LOADER_PROGRAMS_def
  ex_history_def tx_logMessages_def ex_tx_def ex_unrelated ex_deployed

text \<open>
  Claim C5. On a cache miss for a program that is not native, \<open>getDeploymentInfo\<close> runs
  \<open>attempt\<close> at most three times, each time from the state that the previous attempt
  left; it returns the result of the first attempt that succeeds and makes no further
  attempt; a failed attempt, whatever its error (\<open>NotAProgramAccount\<close> included), is
  followed by another one only while fewer than three have been made; and after three
  failed attempts it throws the error captured from the third. In all, at most three
  \<^verbatim>\<open>getParsedAccountInfo\<close> calls are made. Every attempt, from whatever state \<open>s\<close> it
  starts, acquires a connection of its own with \<open>getNextHealthyConnection\<close> and fails
  with that call's error if there is none; on the connection acquired it fetches the
  account of the program and fails with what the fetch throws, with \<open>AccountNotFound\<close>
  for an absent account, and with \<open>NotAProgramAccount\<close> for an owner that is no loader;
  otherwise it resolves the target (the program data account named by the account, the
  program itself if none is named), scans the history of that target on the same
  connection with \<open>findDeploymentTransaction\<close>, fails with \<open>DeploymentNotFound\<close> if the
  scan finds nothing, and if it finds a transaction returns it after writing one record
  of it to the cache, without any further network call.
\<close>

theorem three_attempts_last_error:
  assumes "\<not> isNativeProgram pid" and "getCachedDeployment w pid st = (None, st0)"
  shows "getDeploymentInfo w pid st =
     (case attempt w pid st0 of
        (Inr d, st1) \<Rightarrow> (Inr (Some d), st1)
      | (Inl e1, st1) \<Rightarrow>
          (case attempt w pid st1 of
             (Inr d, st2) \<Rightarrow> (Inr (Some d), st2)
           | (Inl e2, st2) \<Rightarrow>
               (case attempt w pid st2 of
                  (Inr d, st3) \<Rightarrow> (Inr (Some d), st3)
                | (Inl e3, st3) \<Rightarrow> (Inl (captured e3), st3))))
       \<and> account_fetches (snd (getDeploymentInfo w pid st)) \<le> account_fetches st + 3
       \<and> (getNextHealthyConnection w s = (Inl e, s1) \<longrightarrow> attempt w pid s = (Inl e, s1))
       \<and> (getNextHealthyConnection w s = (Inr conn, s1) \<and> \<not> isPublicKey w pid \<longrightarrow>
            attempt w pid s = (Inl (publicKeyError w pid), s1))
       \<and> (getNextHealthyConnection w s = (Inr conn, s1) \<and> isPublicKey w pid \<longrightarrow>
     (let s2 = step (s1\<lparr>rpc_calls := rpc_calls s1 @ [GetParsedAccountInfo conn pid]\<rparr>);
          reply = getParsedAccountInfo w (tick s1) conn pid
      in (\<forall>e. reply = Inl e \<longrightarrow> attempt w pid s = (Inl e, s2)) \<and>
         (reply = Inr None \<longrightarrow> attempt w pid s = (Inl AccountNotFound, s2)) \<and>
         (\<forall>acc. reply = Inr (Some acc) \<and> owner acc \<notin> set BPF_LOADER_PROGRAMS \<longrightarrow>
                attempt w pid s = (Inl NotAProgramAccount, s2)) \<and>
         (\<forall>acc. reply = Inr (Some acc) \<and> owner acc \<in> set BPF_LOADER_PROGRAMS \<longrightarrow>
            (let upgradeable = (programData acc \<noteq> None \<and> programData acc \<noteq> Some []);
                 target = (if upgradeable then the (programData acc) else pid);
                 found = findDeploymentTransaction w conn target pid s2;
                 final = snd (attempt w pid s)
             in (\<not> isPublicKey w target \<longrightarrow>
                   attempt w pid s = (Inl (publicKeyError w target), s2)) \<and>
                (isPublicKey w target \<and> fst found = None \<longrightarrow>
                   attempt w pid s = (Inl DeploymentNotFound, snd found)) \<and>
                (\<forall>d. isPublicKey w target \<and> fst found = Some d \<longrightarrow>
                   fst (attempt w pid s) = Inr d \<and>
                   rpc_calls final = rpc_calls (snd found) \<and>
                   cache_calls final = cache_calls (snd found) @ [CacheDeployment pid] \<and>
                   map_of (cache final) pid =
                     Some \<lparr>programId = pid, deploymentSignature = d_signature d,
                           deploymentSlot = d_slot d, deploymentTimestamp = d_timestamp d,
                           lastChecked = now w (tick (snd found)),
                           isProgramData = upgradeable,
                           programDataAccount = programData acc\<rparr>)))))"
proof (intro conjI)
  from assms show "getDeploymentInfo w pid st =
     (case attempt w pid st0 of
        (Inr d, st1) \<Rightarrow> (Inr (Some d), st1)
      | (Inl e1, st1) \<Rightarrow>
          (case attempt w pid st1 of
             (Inr d, st2) \<Rightarrow> (Inr (Some d), st2)
           | (Inl e2, st2) \<Rightarrow>
               (case attempt w pid st2 of
                  (Inr d, st3) \<Rightarrow> (Inr (Some d), st3)
                | (Inl e3, st3) \<Rightarrow> (Inl (captured e3), st3))))"
    by (simp add: getDeploymentInfo_def maxAttempts_def split: prod.splits sum.splits)
next
  from assms(2) getCached_fetches[of w pid st] have f0: "account_fetches st0 = account_fetches st"
    by simp
  obtain r1 s1 where a1: "attempt w pid st0 = (r1, s1)" by (cases "attempt w pid st0")
  obtain r2 s2 where a2: "attempt w pid s1 = (r2, s2)" by (cases "attempt w pid s1")
  obtain r3 s3 where a3: "attempt w pid s2 = (r3, s3)" by (cases "attempt w pid s2")
  from attempt_fetches_pair[OF a1] attempt_fetches_pair[OF a2] attempt_fetches_pair[OF a3] f0
  have b: "account_fetches s1 \<le> account_fetches st + 3"
    "account_fetches s2 \<le> account_fetches st + 3"
    "account_fetches s3 \<le> account_fetches st + 3" by simp_all
  from assms a1 a2 a3 b
  show "account_fetches (snd (getDeploymentInfo w pid st)) \<le> account_fetches st + 3"
    by (simp add: getDeploymentInfo_def maxAttempts_def split: sum.splits)
next
  show "getNextHealthyConnection w s = (Inl e, s1) \<longrightarrow> attempt w pid s = (Inl e, s1)"
    by (rule attempt_acquire_fails)
next
  show "getNextHealthyConnection w s = (Inr conn, s1) \<and> \<not> isPublicKey w pid \<longrightarrow>
            attempt w pid s = (Inl (publicKeyError w pid), s1)"
    by (simp add: attempt_def PublicKey_def)
next
  show "getNextHealthyConnection w s = (Inr conn, s1) \<and> isPublicKey w pid \<longrightarrow>
     (let s2 = step (s1\<lparr>rpc_calls := rpc_calls s1 @ [GetParsedAccountInfo conn pid]\<rparr>);
          reply = getParsedAccountInfo w (tick s1) conn pid
      in (\<forall>e. reply = Inl e \<longrightarrow> attempt w pid s = (Inl e, s2)) \<and>
         (reply = Inr None \<longrightarrow> attempt w pid s = (Inl AccountNotFound, s2)) \<and>
         (\<forall>acc. reply = Inr (Some acc) \<and> owner acc \<notin> set BPF_LOADER_PROGRAMS \<longrightarrow>
                attempt w pid s = (Inl NotAProgramAccount, s2)) \<and>
         (\<forall>acc. reply = Inr (Some acc) \<and> owner acc \<in> set BPF_LOADER_PROGRAMS \<longrightarrow>
            (let upgradeable = (programData acc \<noteq> None \<and> programData acc \<noteq> Some []);
                 target = (if upgradeable then the (programData acc) else pid);
                 found = findDeploymentTransaction w conn target pid s2;
                 final = snd (attempt w pid s)
             in (\<not> isPublicKey w target \<longrightarrow>
                   attempt w pid s = (Inl (publicKeyError w target), s2)) \<and>
                (isPublicKey w target \<and> fst found = None \<longrightarrow>
                   attempt w pid s = (Inl DeploymentNotFound, snd found)) \<and>
                (\<forall>d. isPublicKey w target \<and> fst found = Some d \<longrightarrow>
                   fst (attempt w pid s) = Inr d \<and>
                   rpc_calls final = rpc_calls (snd found) \<and>
                   cache_calls final = cache_calls (snd found) @ [CacheDeployment pid] \<and>
                   map_of (cache final) pid =
                     Some \<lparr>programId = pid, deploymentSignature = d_signature d,
                           deploymentSlot = d_slot d, deploymentTimestamp = d_timestamp d,
                           lastChecked = now w (tick (snd found)),
                           isProgramData = upgradeable,
                           programDataAccount = programData acc\<rparr>))))"
    by (rule attempt_redoes)
qed

theorem three_attempts_last_error_witness:
  "\<not> isNativeProgram ex_pid \<and>
   fst (getCachedDeployment ex_wallet ex_pid ex_sys) = None \<and>
   fst (getDeploymentInfo ex_wallet ex_pid ex_sys) = Inl NotAProgramAccount \<and>
   rpc_calls (snd (getDeploymentInfo ex_wallet ex_pid ex_sys)) =
     [GetSlot ''http://main-endpoint.test'',
      GetParsedAccountInfo ''http://main-endpoint.test'' ex_pid,
      GetParsedAccountInfo ''http://main-endpoint.test'' ex_pid,
      GetParsedAccountInfo ''http://main-endpoint.test'' ex_pid] \<and>
   fst (getDeploymentInfo ex_retry ex_pid ex_sys) =
     Inr (Some \<lparr>d_signature = ''sig5'', d_slot = 5, d_timestamp = 1600000500,
                 d_programDataAccount = None\<rparr>) \<and>
   rpc_calls (snd (getDeploymentInfo ex_retry ex_pid ex_sys)) =
     [GetSlot ''http://main-endpoint.test'',
      GetParsedAccountInfo ''http://main-endpoint.test'' ex_pid,
      GetParsedAccountInfo ''http://main-endpoint.test'' ex_pid,
      GetParsedAccountInfo ''http://main-endpoint.test'' ex_pid,
      GetSignaturesForAddress ''http://main-endpoint.test'' ''ex-program-data'',
      GetParsedTransaction ''http://main-endpoint.test'' ''sig2'',
      GetParsedTransaction ''http://main-endpoint.test'' ''sig5''] \<and>
   fst (attempt ex_upgradeable ex_pid ex_sys) =
     Inr \<lparr>d_signature = ''sig5'', d_slot = 5, d_timestamp = 1600000500,
           d_programDataAccount = None\<rparr> \<and>
   rpc_calls (snd (attempt ex_upgradeable ex_pid ex_sys)) =
     [GetSlot ''http://main-endpoint.test'',
      GetParsedAccountInfo ''http://main-endpoint.test'' ex_pid,
      GetSignaturesForAddress ''http://main-endpoint.test'' ''ex-program-data'',
      GetParsedTransaction ''http://main-endpoint.test'' ''sig2'',
      GetParsedTransaction ''http://main-endpoint.test'' ''sig5''] \<and>
   cache_calls (snd (attempt ex_upgradeable ex_pid ex_sys)) = [CacheDeployment ex_pid] \<and>
   map_of (cache (snd (attempt ex_upgradeable ex_pid ex_sys))) ex_pid =
     Some \<lparr>programId = ex_pid, deploymentSignature = ''sig5'', deploymentSlot = 5,
           deploymentTimestamp = 1600000500, lastChecked = 1700000000000,
           isProgramData = True, programDataAccount = Some ''ex-program-data''\<rparr> \<and>
   fst (attempt ex_dead ex_pid ex_sys) = Inl NoHealthyEndpoints \<and>
   rpc_calls (snd (attempt ex_dead ex_pid ex_sys)) =
     [GetSlot ''http://main-endpoint.test'', GetSlot ''http://fallback-endpoint.test'']"
proof -
  have h1: "\<not> isNativeProgram ex_pid" by (rule ex_pid_not_native)
  have miss: "\<And>w. getCachedDeployment w ex_pid ex_sys =
      (None, ex_sys\<lparr>cache_calls := [GetCachedDeployment ex_pid]\<rparr>)"
    by (simp add: getCachedDeployment_def ex_sys_def)
  note inst = three_attempts_last_error[OF h1 miss]
  let ?main = "''http://main-endpoint.test''"
  note run_wallet = inst[where w = ex_wallet, THEN conjunct1]
  have wallet: "fst (getDeploymentInfo ex_wallet ex_pid ex_sys) = Inl NotAProgramAccount"
    "rpc_calls (snd (getDeploymentInfo ex_wallet ex_pid ex_sys)) =
     [GetSlot ?main, GetParsedAccountInfo ?main ex_pid,
      GetParsedAccountInfo ?main ex_pid, GetParsedAccountInfo ?main ex_pid]"
    unfolding run_wallet
    by (simp_all add: ex_defs attempt_def eval_defs PublicKey_def captured_def
        isProgramAccount_def NotAProgramAccount_def)
  note run_retry = inst[where w = ex_retry, THEN conjunct1]
  have retry: "fst (getDeploymentInfo ex_retry ex_pid ex_sys) =
     Inr (Some \<lparr>d_signature = ''sig5'', d_slot = 5, d_timestamp = 1600000500,
                 d_programDataAccount = None\<rparr>)"
    "rpc_calls (snd (getDeploymentInfo ex_retry ex_pid ex_sys)) =
     [GetSlot ?main, GetParsedAccountInfo ?main ex_pid,
      GetParsedAccountInfo ?main ex_pid, GetParsedAccountInfo ?main ex_pid,
      GetSignaturesForAddress ?main ''ex-program-data'',
      GetParsedTransaction ?main ''sig2'', GetParsedTransaction ?main ''sig5'']"
    unfolding run_retry
    by (simp_all add: ex_defs ex_retry_def ex_upgradeable_def attempt_def eval_defs PublicKey_def
        captured_def isProgramAccount_def truthy_def cacheDeployment_effect[THEN conjunct1])
  note one = inst[where w = ex_upgradeable and s = ex_sys and conn = ?main
      and ?s1.0 = "snd (getNextHealthyConnection ex_upgradeable ex_sys)",
      THEN conjunct2, THEN conjunct2, THEN conjunct2, THEN conjunct2]
  have acq: "getNextHealthyConnection ex_upgradeable ex_sys =
      (Inr ?main, snd (getNextHealthyConnection ex_upgradeable ex_sys))"
    by (simp add: ex_defs ex_upgradeable_def eval_defs)
  have key: "isPublicKey ex_upgradeable ex_pid"
    by (simp add: ex_defs ex_upgradeable_def)
  note body = one[THEN mp, OF conjI[OF acq key]]
  have att: "fst (attempt ex_upgradeable ex_pid ex_sys) =
     Inr \<lparr>d_signature = ''sig5'', d_slot = 5, d_timestamp = 1600000500,
           d_programDataAccount = None\<rparr> \<and>
   rpc_calls (snd (attempt ex_upgradeable ex_pid ex_sys)) =
     [GetSlot ?main, GetParsedAccountInfo ?main ex_pid,
      GetSignaturesForAddress ?main ''ex-program-data'',
      GetParsedTransaction ?main ''sig2'', GetParsedTransaction ?main ''sig5''] \<and>
   cache_calls (snd (attempt ex_upgradeable ex_pid ex_sys)) = [CacheDeployment ex_pid] \<and>
   map_of (cache (snd (attempt ex_upgradeable ex_pid ex_sys))) ex_pid =
     Some \<lparr>programId = ex_pid, deploymentSignature = ''sig5'', deploymentSlot = 5,
           deploymentTimestamp = 1600000500, lastChecked = 1700000000000,
           isProgramData = True, programDataAccount = Some ''ex-program-data''\<rparr>"
    using body
    by (simp add: ex_defs ex_upgradeable_def eval_defs)
  note dead = inst[where w = ex_dead and s = ex_sys and e = NoHealthyEndpoints
      and ?s1.0 = "snd (getNextHealthyConnection ex_dead ex_sys)",
      THEN conjunct2, THEN conjunct2, THEN conjunct1, THEN mp]
  have "getNextHealthyConnection ex_dead ex_sys =
      (Inl NoHealthyEndpoints, snd (getNextHealthyConnection ex_dead ex_sys))"
    by (simp add: ex_dead_next)
  from dead[OF this] have none: "fst (attempt ex_dead ex_pid ex_sys) = Inl NoHealthyEndpoints"
    "rpc_calls (snd (attempt ex_dead ex_pid ex_sys)) =
     [GetSlot ?main, GetSlot ''http://fallback-endpoint.test'']"
    by (simp_all add: ex_dead_next)
  from h1 miss[of ex_wallet] wallet retry att none show ?thesis
    by (intro conjI) simp_all
qed

section \<open>The cache\<close>

lemma saveCache_file:
  "\<not> fsFails w (tick st) \<Longrightarrow> \<not> fsFails w (Suc (tick st)) \<Longrightarrow>
   cacheFile (saveCache w st) = Some (stringifyEntries w (cache st))"
  by (simp add: saveCache_def mkdirSync_def writeFileSync_def step_def)

text \<open>
  Claim C8. A record whose age \<open>now - lastChecked\<close> exceeds the 24 hours of
  \<open>cacheValidityPeriod\<close> is never returned by \<open>getCachedDeployment\<close>: the read returns
  nothing, the record is deleted from the map in memory (the other records stay), and
  the map without it is written to the cache file in the same call; the file holds it
  unless a file-system call of that write throws, which \<open>saveCache\<close> swallows.
\<close>

theorem expired_record_evicted:
  assumes "map_of (cache st) pid = Some e"
    and "now w (tick st) - lastChecked e > cacheValidityPeriod"
  shows "fst (getCachedDeployment w pid st) = None
         \<and> cache (snd (getCachedDeployment w pid st)) = AList.delete pid (cache st)
         \<and> map_of (cache (snd (getCachedDeployment w pid st))) pid = None
         \<and> ((\<forall>t > tick st. \<not> fsFails w t) \<longrightarrow>
              cacheFile (snd (getCachedDeployment w pid st)) =
                Some (stringifyEntries w (AList.delete pid (cache st))))"
  using assms
  by (simp add: getCachedDeployment_def Let_def saveCache_file step_def delete_conv')

theorem expired_record_evicted_witness:
  "map_of (cache ex_cached) ex_pid = Some ex_entry \<and>
   now ex_later (tick ex_cached) - lastChecked ex_entry > cacheValidityPeriod \<and>
   (\<forall>t. \<not> fsFails ex_later t) \<and>
   fst (getCachedDeployment ex_later ex_pid ex_cached) = None \<and>
   cache (snd (getCachedDeployment ex_later ex_pid ex_cached)) = [] \<and>
   cacheFile (snd (getCachedDeployment ex_later ex_pid ex_cached)) = Some []"
proof -
  have h1: "map_of (cache ex_cached) ex_pid = Some ex_entry"
    by (simp add: ex_cached_def ex_sys_def)
  have h2: "now ex_later (tick ex_cached) - lastChecked ex_entry > cacheValidityPeriod"
    by (simp add: ex_later_def ex_world_def ex_cached_def ex_sys_def ex_entry_def
        cacheValidityPeriod_def)
  have h3: "\<forall>t. \<not> fsFails ex_later t"
    by (simp add: ex_later_def ex_world_def)
  from expired_record_evicted[OF h1 h2] h1 h2 h3 show ?thesis
    by (simp add: ex_cached_def ex_sys_def ex_later_def ex_world_def)
qed

text \<open>
  Claim C9. When the content of the cache file cannot be parsed (\<^verbatim>\<open>JSON.parse\<close> throws),
  constructing the cache service does not throw: \<open>CacheService_new\<close> returns a state, its
  cache is empty, and \<open>getCacheStats\<close> then reports a total of 0.
\<close>

theorem unparsable_cache_file_gives_empty_cache:
  assumes "cacheFile st = Some data" and "parseEntries w data = Inl e"
  shows "cache (CacheService_new w st) = []
         \<and> total (fst (getCacheStats w (CacheService_new w st))) = 0"
  using assms
  by (simp add: CacheService_new_def loadCache_def mkdirSync_def readFileSync_def step_def
      getCacheStats_def Let_def split: prod.splits)

theorem unparsable_cache_file_gives_empty_cache_witness:
  "cacheFile ex_corrupted = Some ''not json'' \<and>
   parseEntries ex_world ''not json'' = Inl (Error ''Unexpected token'') \<and>
   cache (CacheService_new ex_world ex_corrupted) = [] \<and>
   total (fst (getCacheStats ex_world (CacheService_new ex_world ex_corrupted))) = 0"
proof -
  have h1: "cacheFile ex_corrupted = Some ''not json''" by (simp add: ex_corrupted_def)
  have h2: "parseEntries ex_world ''not json'' = Inl (Error ''Unexpected token'')"
    by (simp add: ex_world_def)
  from unparsable_cache_file_gives_empty_cache[OF h1 h2] h1 h2 show ?thesis by simp
qed

section \<open>Detection without the network\<close>

text \<open>
  Claim C6. For every program identifier of \<open>NATIVE_PROGRAMS\<close>, \<open>getDeploymentInfo\<close>
  returns the native sentinel (\<^verbatim>\<open>null\<close>, here \<open>Inr None\<close>) and leaves the whole state as
  it was: \<open>rpc_calls\<close> and \<open>cache_calls\<close> record no remote and no cache operation.
\<close>

theorem native_program_no_operations:
  "pid \<in> set NATIVE_PROGRAMS \<Longrightarrow> getDeploymentInfo w pid st = (Inr None, st)"
  by (simp add: getDeploymentInfo_def isNativeProgram_def)

theorem native_program_no_operations_witness:
  "''TokenkegQfeZyiNwAJbNbGKPFXCWuBvf9Ss623VQ5DA'' \<in> set NATIVE_PROGRAMS \<and>
   getDeploymentInfo ex_world ''TokenkegQfeZyiNwAJbNbGKPFXCWuBvf9Ss623VQ5DA'' ex_cached =
     (Inr None, ex_cached)"
proof -
  have h: "''TokenkegQfeZyiNwAJbNbGKPFXCWuBvf9Ss623VQ5DA'' \<in> set NATIVE_PROGRAMS"
    by (simp add: NATIVE_PROGRAMS_def)
  from h native_program_no_operations[OF h, of ex_world ex_cached] show ?thesis by simp
qed

text \<open>
  Claim C7. For a program identifier that is not native and has a cached record that has
  not expired, \<open>getDeploymentInfo\<close> returns that record in the public shape (signature,
  slot, timestamp, programDataAccount) and performs no remote operation: \<open>rpc_calls\<close> is
  unchanged.
\<close>

theorem cache_hit_no_network:
  assumes "\<not> isNativeProgram pid"
    and "map_of (cache st) pid = Some e"
    and "now w (tick st) - lastChecked e \<le> cacheValidityPeriod"
  shows "fst (getDeploymentInfo w pid st) =
           Inr (Some \<lparr>d_signature = deploymentSignature e, d_slot = deploymentSlot e,
                      d_timestamp = deploymentTimestamp e,
                      d_programDataAccount = programDataAccount e\<rparr>)
         \<and> rpc_calls (snd (getDeploymentInfo w pid st)) = rpc_calls st"
  using assms by (simp add: getDeploymentInfo_def getCachedDeployment_def Let_def step_def)

theorem cache_hit_no_network_witness:
  "\<not> isNativeProgram ex_pid \<and> map_of (cache ex_cached) ex_pid = Some ex_entry \<and>
   now ex_world (tick ex_cached) - lastChecked ex_entry \<le> cacheValidityPeriod \<and>
   fst (getDeploymentInfo ex_world ex_pid ex_cached) =
     Inr (Some \<lparr>d_signature = ''test-signature'', d_slot = 1000, d_timestamp = 1600000000,
                d_programDataAccount = Some ''test-program-data''\<rparr>) \<and>
   rpc_calls (snd (getDeploymentInfo ex_world ex_pid ex_cached)) = []"
proof -
  have h1: "\<not> isNativeProgram ex_pid" by (rule ex_pid_not_native)
  have h2: "map_of (cache ex_cached) ex_pid = Some ex_entry"
    by (simp add: ex_cached_def ex_sys_def)
  have h3: "now ex_world (tick ex_cached) - lastChecked ex_entry \<le> cacheValidityPeriod"
    by (simp add: ex_world_def ex_cached_def ex_sys_def ex_entry_def cacheValidityPeriod_def)
  from cache_hit_no_network[OF h1 h2 h3] h1 h2 h3 show ?thesis
    by (simp add: ex_entry_def ex_cached_def ex_sys_def)
qed

end
